theory Spec2Isabelle
  imports Complex_Main "HOL-Library.Multiset"
begin

section \<open>The record store (database/db.js)\<close>

text \<open>
  The store is one SQLite table, \<^verbatim>\<open>trading_records\<close>, created by \<^verbatim>\<open>createTables\<close>.
  A row of the table is a record with one field per column. The two time columns are
  nullable (\<open>None\<close> is SQL NULL); \<^verbatim>\<open>account\<close>, \<^verbatim>\<open>item\<close> and \<^verbatim>\<open>status\<close> are declared
  \<^verbatim>\<open>NOT NULL\<close>. Integer columns are unbounded integers here (SQLite stores 64 bits and
  JavaScript numbers are exact below \<open>2 ^ 53\<close>; no property below depends on overflow).
  \<^verbatim>\<open>import_date\<close> is the value of \<^verbatim>\<open>CURRENT_TIMESTAMP\<close> at the insert, kept as a number of
  seconds; \<^verbatim>\<open>DATE(import_date)\<close> is its day number.
\<close>

record trading_record =
  rowid :: nat
  first_buy_time :: "string option"
  last_sell_time :: "string option"
  account :: string
  item :: string
  status :: string
  bought :: int
  sold :: int
  avg_buy_price :: int
  avg_sell_price :: int
  tax :: int
  profit :: int
  profit_ea :: int
  import_date :: nat

definition DATE :: "nat \<Rightarrow> nat" where
  "DATE t = t div 86400"

text \<open>
  The database handle. Besides the table it holds what SQLite keeps for the connection:
  the \<^verbatim>\<open>AUTOINCREMENT\<close> counter and the rowid of the last successful insert. Two parts of
  the environment are made explicit: the clock read by \<^verbatim>\<open>CURRENT_TIMESTAMP\<close>, and the
  outcome of each coming driver call (\<open>True\<close>: the call hands an error to its callback,
  as on an I/O failure; an exhausted list means that every further call succeeds).
\<close>

record db =
  trading_records :: "trading_record list"
  sqlite_sequence :: nat
  last_insert_rowid :: nat
  current_timestamp :: nat
  failures :: "bool list"

datatype error = SqliteError

text \<open>One driver call (\<^verbatim>\<open>db.run\<close>, \<^verbatim>\<open>db.get\<close>, \<^verbatim>\<open>db.all\<close>) takes the next outcome.\<close>

definition driver_call :: "db \<Rightarrow> bool \<times> db" where
  "driver_call d =
     (case failures d of
        [] \<Rightarrow> (False, d)
      | f # fs \<Rightarrow> (f, d\<lparr>failures := fs\<rparr>))"

subsection \<open>insertRecord\<close>

text \<open>
  The object built from a CSV row and passed to \<^verbatim>\<open>insertRecord\<close>. A text field is
  \<open>None\<close> when the JavaScript value is \<^verbatim>\<open>undefined\<close>; the driver leaves such a parameter
  unbound, which SQLite reads as NULL.
\<close>

record csv_record =
  firstBuyTime :: "string option"
  lastSellTime :: "string option"
  accountOf :: "string option"
  itemOf :: "string option"
  statusOf :: "string option"
  boughtOf :: int
  soldOf :: int
  avgBuyPrice :: int
  avgSellPrice :: int
  taxOf :: int
  profitOf :: int
  profitEa :: int

text \<open>SQL \<^verbatim>\<open>a = b\<close> on nullable text is true only when both sides are present and equal.\<close>

fun sql_eq :: "string option \<Rightarrow> string option \<Rightarrow> bool" where
  "sql_eq (Some a) (Some b) = (a = b)"
| "sql_eq _ _ = False"

text \<open>
  The rows selected by
  \<^verbatim>\<open>WHERE first_buy_time = ? AND last_sell_time = ? AND item = ?\<close>;
  the same rows are the ones that violate \<^verbatim>\<open>UNIQUE(first_buy_time, last_sell_time, item)\<close>,
  since SQLite treats NULLs as distinct in a UNIQUE constraint.
\<close>

definition key_matches ::
  "string option \<Rightarrow> string option \<Rightarrow> string option \<Rightarrow> trading_record \<Rightarrow> bool" where
  "key_matches f l i r =
     (sql_eq (first_buy_time r) f \<and> sql_eq (last_sell_time r) l \<and> sql_eq (Some (item r)) i)"

definition key_count ::
  "trading_record list \<Rightarrow> string option \<Rightarrow> string option \<Rightarrow> string option \<Rightarrow> nat" where
  "key_count t f l i = length (filter (key_matches f l i) t)"

text \<open>What \<^verbatim>\<open>db.run\<close> reports: \<^verbatim>\<open>this.lastID\<close> and \<^verbatim>\<open>this.changes\<close>.\<close>

record run_result =
  lastID :: nat
  changes :: nat

text \<open>
  \<^verbatim>\<open>INSERT OR IGNORE\<close>: a row that violates a \<^verbatim>\<open>NOT NULL\<close> or the \<^verbatim>\<open>UNIQUE\<close> constraint is
  skipped without an error and without a change. The \<^verbatim>\<open>AUTOINCREMENT\<close> counter advances
  on every executed statement; the last insert rowid only on a stored row.
\<close>

definition insert_or_ignore :: "db \<Rightarrow> csv_record \<Rightarrow> run_result \<times> db" where
  "insert_or_ignore d r =
     (let n = Suc (sqlite_sequence d);
          d1 = d\<lparr>sqlite_sequence := n\<rparr>
      in case (accountOf r, itemOf r, statusOf r) of
           (Some a, Some i, Some s) \<Rightarrow>
             if key_count (trading_records d) (firstBuyTime r) (lastSellTime r) (itemOf r) > 0
             then (\<lparr>lastID = last_insert_rowid d, changes = 0\<rparr>, d1)
             else (\<lparr>lastID = n, changes = 1\<rparr>,
                   d1\<lparr>trading_records := trading_records d @
                        [\<lparr>rowid = n, first_buy_time = firstBuyTime r,
                          last_sell_time = lastSellTime r, account = a, item = i, status = s,
                          bought = boughtOf r, sold = soldOf r,
                          avg_buy_price = avgBuyPrice r, avg_sell_price = avgSellPrice r,
                          tax = taxOf r, profit = profitOf r, profit_ea = profitEa r,
                          import_date = current_timestamp d\<rparr>],
                      last_insert_rowid := n\<rparr>)
         | _ \<Rightarrow> (\<lparr>lastID = last_insert_rowid d, changes = 0\<rparr>, d1))"

text \<open>
  \<^verbatim>\<open>insertRecord\<close> rejects with the driver's error and otherwise resolves with the run
  result. The \<^verbatim>\<open>|| 0\<close> defaults of its parameter list leave an integer unchanged.
\<close>

definition insertRecord :: "db \<Rightarrow> csv_record \<Rightarrow> (error + run_result) \<times> db" where
  "insertRecord d r =
     (case driver_call d of
        (True, d1) \<Rightarrow> (Inl SqliteError, d1)
      | (False, d1) \<Rightarrow> (case insert_or_ignore d1 r of (res, d2) \<Rightarrow> (Inr res, d2)))"

subsection \<open>recordExists\<close>

definition recordExists ::
  "db \<Rightarrow> string option \<Rightarrow> string option \<Rightarrow> string option \<Rightarrow> (error + bool) \<times> db" where
  "recordExists d f l i =
     (case driver_call d of
        (True, d1) \<Rightarrow> (Inl SqliteError, d1)
      | (False, d1) \<Rightarrow> (Inr (key_count (trading_records d1) f l i > 0), d1))"

subsection \<open>getRecords\<close>

text \<open>SQLite's \<^verbatim>\<open>UPPER\<close> folds the ASCII letters and leaves every other character.\<close>

definition upper_char :: "char \<Rightarrow> char" where
  "upper_char c =
     (case map_of (zip ''abcdefghijklmnopqrstuvwxyz'' ''ABCDEFGHIJKLMNOPQRSTUVWXYZ'') c of
        None \<Rightarrow> c
      | Some u \<Rightarrow> u)"

definition UPPER :: "string \<Rightarrow> string" where
  "UPPER s = map upper_char s"

text \<open>
  \<^verbatim>\<open>getRecords(status)\<close>: the filter is added when the argument is truthy (present and
  not the empty string); the listing is ordered by \<^verbatim>\<open>import_date\<close>, latest first.
\<close>

definition getRecords :: "db \<Rightarrow> string option \<Rightarrow> (error + trading_record list) \<times> db" where
  "getRecords d st =
     (case driver_call d of
        (True, d1) \<Rightarrow> (Inl SqliteError, d1)
      | (False, d1) \<Rightarrow>
          (let selected =
                 (case st of
                    None \<Rightarrow> trading_records d1
                  | Some s \<Rightarrow>
                      if s = [] then trading_records d1
                      else filter (\<lambda>r. UPPER (status r) = UPPER s) (trading_records d1))
           in (Inr (sort_key (\<lambda>r. - int (import_date r)) selected), d1)))"

subsection \<open>getDashboardStats\<close>

record stats =
  totalProfit :: int
  completedFlips :: nat
  totalRecords :: nat
  topFlips :: "trading_record list"
  topItems :: "(string \<times> int) list"

text \<open>\<^verbatim>\<open>SUM\<close> over no rows is NULL.\<close>

definition sql_sum :: "int list \<Rightarrow> int option" where
  "sql_sum xs = (if xs = [] then None else Some (sum_list xs))"

text \<open>
  \<^verbatim>\<open>row.total || row.count || 0\<close> for the row of the \<^verbatim>\<open>SUM\<close> query, which has no
  \<^verbatim>\<open>count\<close>. For the rows of the two \<^verbatim>\<open>COUNT\<close> queries the expression is the count.
\<close>

definition total_or_zero :: "int option \<Rightarrow> int" where
  "total_or_zero v = (case v of None \<Rightarrow> 0 | Some n \<Rightarrow> if n \<noteq> 0 then n else 0)"

text \<open>
  The five queries of \<^verbatim>\<open>getDashboardStats\<close> over the table. \<^verbatim>\<open>status = 'FINISHED'\<close> compares
  text with SQLite's default \<^verbatim>\<open>BINARY\<close> collation. \<^verbatim>\<open>ORDER BY ... DESC\<close> is taken as a stable
  sort (SQL leaves the order of rows with equal keys open), groups in the order of their
  last member.
\<close>

definition finished :: "trading_record list \<Rightarrow> trading_record list" where
  "finished t = filter (\<lambda>r. status r = ''FINISHED'') t"

definition q_totalProfit :: "trading_record list \<Rightarrow> int" where
  "q_totalProfit t = total_or_zero (sql_sum (map profit (finished t)))"

definition q_completedFlips :: "trading_record list \<Rightarrow> nat" where
  "q_completedFlips t = length (finished t)"

definition q_totalRecords :: "trading_record list \<Rightarrow> nat" where
  "q_totalRecords t = length t"

definition q_topFlips :: "trading_record list \<Rightarrow> trading_record list" where
  "q_topFlips t = take 10 (sort_key (\<lambda>r. - profit r) t)"

definition q_topItems :: "trading_record list \<Rightarrow> (string \<times> int) list" where
  "q_topItems t =
     take 10 (sort_key (\<lambda>g. - snd g)
       (map (\<lambda>i. (i, sum_list (map profit (filter (\<lambda>r. item r = i) (finished t)))))
            (remdups (map item (finished t)))))"

text \<open>
  All the queries are issued before any callback runs, so each takes its driver outcome;
  the promise rejects when one of them failed.
\<close>

fun driver_calls :: "nat \<Rightarrow> db \<Rightarrow> bool \<times> db" where
  "driver_calls 0 d = (False, d)"
| "driver_calls (Suc n) d =
     (case driver_call d of (f, d1) \<Rightarrow>
        (case driver_calls n d1 of (g, d2) \<Rightarrow> (f \<or> g, d2)))"

definition getDashboardStats :: "db \<Rightarrow> (error + stats) \<times> db" where
  "getDashboardStats d =
     (case driver_calls 5 d of
        (True, d1) \<Rightarrow> (Inl SqliteError, d1)
      | (False, d1) \<Rightarrow>
          (Inr \<lparr>totalProfit = q_totalProfit (trading_records d1),
                completedFlips = q_completedFlips (trading_records d1),
                totalRecords = q_totalRecords (trading_records d1),
                topFlips = q_topFlips (trading_records d1),
                topItems = q_topItems (trading_records d1)\<rparr>, d1))"

subsection \<open>getDailyReturns\<close>

record daily =
  date :: nat
  totalTrades :: nat
  dailyProfit :: int
  finishedTrades :: nat
  activeTrades :: nat
  topItem :: string
  topItemProfit :: int

definition on_date :: "nat \<Rightarrow> trading_record list \<Rightarrow> trading_record list" where
  "on_date dt t = filter (\<lambda>r. DATE (import_date r) = dt) t"

text \<open>
  The grouped query: one row per distinct date, latest date first. The rows have no top
  item yet; the two fields are filled in by \<^verbatim>\<open>addTopItemsToDaily\<close>.
\<close>

definition daily_group :: "trading_record list \<Rightarrow> nat \<Rightarrow> daily" where
  "daily_group t dt =
     \<lparr>date = dt,
      totalTrades = length (on_date dt t),
      dailyProfit =
        sum_list (map (\<lambda>r. if status r = ''FINISHED'' then profit r else 0) (on_date dt t)),
      finishedTrades = length (filter (\<lambda>r. status r = ''FINISHED'') (on_date dt t)),
      activeTrades = length (filter (\<lambda>r. status r = ''SELLING'') (on_date dt t)),
      topItem = [],
      topItemProfit = 0\<rparr>"

definition q_daily :: "trading_record list \<Rightarrow> daily list" where
  "q_daily t =
     map (daily_group t)
       (sort_key (\<lambda>dt. - int dt) (remdups (map (\<lambda>r. DATE (import_date r)) t)))"

text \<open>\<^verbatim>\<open>addTopItemsToDaily\<close>: one more query per day.\<close>

definition addTopItemsToDaily :: "trading_record list \<Rightarrow> daily \<Rightarrow> daily" where
  "addTopItemsToDaily t day =
     (case take 1 (sort_key (\<lambda>r. - profit r) (finished (on_date (date day) t))) of
        [] \<Rightarrow> day\<lparr>topItem := ''No completed trades'', topItemProfit := 0\<rparr>
      | r # _ \<Rightarrow> day\<lparr>topItem := item r, topItemProfit := profit r\<rparr>)"

definition getDailyReturns :: "db \<Rightarrow> (error + daily list) \<times> db" where
  "getDailyReturns d =
     (case driver_call d of
        (True, d1) \<Rightarrow> (Inl SqliteError, d1)
      | (False, d1) \<Rightarrow>
          (let rows = q_daily (trading_records d1)
           in case driver_calls (length rows) d1 of
                (True, d2) \<Rightarrow> (Inl SqliteError, d2)
              | (False, d2) \<Rightarrow> (Inr (map (addTopItemsToDaily (trading_records d1)) rows), d2)))"

subsection \<open>getTimelineData\<close>

text \<open>
  A day of the timeline: the daily row with the fields the loop adds. \<^verbatim>\<open>roi\<close> and
  \<^verbatim>\<open>growth\<close> are quotients of JavaScript numbers, taken here as exact rationals.
\<close>

record timeline_day = daily +
  items :: nat
  flips :: nat
  netWorth :: int
  roi :: rat
  growth :: rat

text \<open>
  The \<^verbatim>\<open>forEach\<close> loop. Its state is the two variables \<^verbatim>\<open>cumulativeNetWorth\<close> and
  \<^verbatim>\<open>previousDayNetWorth\<close>; \<open>rnd k\<close> is the value of the \<open>k\<close>-th call of \<^verbatim>\<open>Math.random()\<close>.
\<close>

fun timeline_loop ::
  "(nat \<Rightarrow> rat) \<Rightarrow> nat \<Rightarrow> int \<Rightarrow> int \<Rightarrow> daily list \<Rightarrow> timeline_day list" where
  "timeline_loop rnd k cumulativeNetWorth previousDayNetWorth [] = []"
| "timeline_loop rnd k cumulativeNetWorth previousDayNetWorth (day # days) =
     (let cumulative = cumulativeNetWorth + dailyProfit day;
          totalInvested = int (finishedTrades day) * 100000
      in \<lparr>date = date day, totalTrades = totalTrades day, dailyProfit = dailyProfit day,
          finishedTrades = finishedTrades day, activeTrades = activeTrades day,
          topItem = topItem day, topItemProfit = topItemProfit day,
          items = nat \<lfloor>rnd k * 10\<rfloor> + 1,
          flips = totalTrades day,
          netWorth = cumulative,
          roi = (if totalInvested > 0
                 then of_int (dailyProfit day * 100) / of_int totalInvested else 0),
          growth = (if previousDayNetWorth > 0
                    then of_int (dailyProfit day * 100) / of_int previousDayNetWorth else 0)\<rparr>
         # timeline_loop rnd (Suc k) cumulative cumulative days)"

text \<open>
  \<^verbatim>\<open>getTimelineData\<close> takes the daily rows, sorts them by date ascending for the loop
  (JavaScript's sort is stable), starts both loop variables at the constant
  \<^verbatim>\<open>startingNetWorth\<close>, and sorts the result by date descending.
\<close>

definition startingNetWorth :: int where
  "startingNetWorth = 198000000"

definition getTimelineData :: "(nat \<Rightarrow> rat) \<Rightarrow> db \<Rightarrow> (error + timeline_day list) \<times> db" where
  "getTimelineData rnd d =
     (case getDailyReturns d of
        (Inl e, d1) \<Rightarrow> (Inl e, d1)
      | (Inr dailyData, d1) \<Rightarrow>
          (Inr (sort_key (\<lambda>p. - int (date p))
                  (timeline_loop rnd 0 startingNetWorth startingNetWorth
                     (sort_key date dailyData))), d1))"

section \<open>The CSV import (routes/index.js)\<close>

subsection \<open>parseInt\<close>

text \<open>
  \<^verbatim>\<open>parseInt(string)\<close> with no radix: leading white space is skipped (the ASCII white
  space here; strings are byte strings), then a sign, then \<^verbatim>\<open>0x\<close> or \<^verbatim>\<open>0X\<close> selects
  radix 16, then the longest run of digits is read. No digit gives \<^verbatim>\<open>NaN\<close>, which is
  \<open>None\<close>. The value is exact (JavaScript rounds beyond \<open>2 ^ 53\<close>).
\<close>

definition is_white_space :: "char \<Rightarrow> bool" where
  "is_white_space c = ((of_char c :: nat) \<in> {9, 10, 11, 12, 13, 32})"

definition digit_of :: "char \<Rightarrow> nat" where
  "digit_of c =
     (let n = (of_char c :: nat)
      in if 48 \<le> n \<and> n \<le> 57 then n - 48
         else if 97 \<le> n \<and> n \<le> 122 then n - 87
         else if 65 \<le> n \<and> n \<le> 90 then n - 55
         else 36)"

definition is_digit :: "nat \<Rightarrow> char \<Rightarrow> bool" where
  "is_digit R c = (digit_of c < R)"

definition parseInt :: "string \<Rightarrow> int option" where
  "parseInt inputString =
     (let S = dropWhile is_white_space inputString;
          sign = (if take 1 S = ''-'' then - 1 else (1::int));
          S1 = (if take 1 S = ''+'' \<or> take 1 S = ''-'' then drop 1 S else S);
          stripPrefix = (take 2 S1 = ''0x'' \<or> take 2 S1 = ''0X'');
          R = (if stripPrefix then 16 else 10);
          S2 = (if stripPrefix then drop 2 S1 else S1);
          Z = takeWhile (is_digit R) S2
      in if Z = [] then None
         else Some (sign * int (foldl (\<lambda>a c. a * R + digit_of c) 0 Z)))"

text \<open>\<^verbatim>\<open>parseInt(undefined)\<close> reads the string \<^verbatim>\<open>undefined\<close>, which has no digit.\<close>

definition parseInt_value :: "string option \<Rightarrow> int option" where
  "parseInt_value v = (case v of None \<Rightarrow> None | Some s \<Rightarrow> parseInt s)"

text \<open>\<^verbatim>\<open>n || 0\<close> on a number: \<^verbatim>\<open>NaN\<close> and zero are falsy.\<close>

definition or_zero :: "int option \<Rightarrow> int" where
  "or_zero v = (case v of None \<Rightarrow> 0 | Some n \<Rightarrow> if n \<noteq> 0 then n else 0)"

subsection \<open>processCsvFile\<close>

text \<open>
  A row of the CSV reader maps column names to strings. \<^verbatim>\<open>row[a] || row[b]\<close> takes
  the first column when it is present and not empty, and else the second, which may be
  \<^verbatim>\<open>undefined\<close>.
\<close>

type_synonym raw_row = "string \<rightharpoonup> string"

definition either_column :: "raw_row \<Rightarrow> string \<Rightarrow> string \<Rightarrow> string option" where
  "either_column row a b =
     (case row a of
        None \<Rightarrow> row b
      | Some s \<Rightarrow> if s \<noteq> [] then Some s else row b)"

text \<open>The object literal \<^verbatim>\<open>record\<close> at the head of the loop body.\<close>

definition row_record :: "raw_row \<Rightarrow> csv_record" where
  "row_record row =
     \<lparr>firstBuyTime = either_column row ''First buy time'' ''first_buy_time'',
      lastSellTime = either_column row ''Last sell time'' ''last_sell_time'',
      accountOf = either_column row ''Account'' ''account'',
      itemOf = either_column row ''Item'' ''item'',
      statusOf = either_column row ''Status'' ''status'',
      boughtOf = or_zero (parseInt_value (either_column row ''Bought'' ''bought'')),
      soldOf = or_zero (parseInt_value (either_column row ''Sold'' ''sold'')),
      avgBuyPrice =
        or_zero (parseInt_value (either_column row ''Avg. buy price'' ''avg_buy_price'')),
      avgSellPrice =
        or_zero (parseInt_value (either_column row ''Avg. sell price'' ''avg_sell_price'')),
      taxOf = or_zero (parseInt_value (either_column row ''Tax'' ''tax'')),
      profitOf = or_zero (parseInt_value (either_column row ''Profit'' ''profit'')),
      profitEa = or_zero (parseInt_value (either_column row ''Profit ea.'' ''profit_ea''))\<rparr>"

record counters =
  newRecords :: nat
  duplicates :: nat
  errors :: nat

record import_result = counters +
  totalInDb :: nat

text \<open>
  The body of the \<^verbatim>\<open>for\<close> loop with its \<^verbatim>\<open>try\<close>/\<^verbatim>\<open>catch\<close>: a rejected promise of
  \<^verbatim>\<open>recordExists\<close> or \<^verbatim>\<open>insertRecord\<close> is caught, counted, and the loop goes on.
\<close>

definition process_row :: "raw_row \<Rightarrow> counters \<times> db \<Rightarrow> counters \<times> db" where
  "process_row row s =
     (case s of (c, d) \<Rightarrow>
        (let record = row_record row
         in case recordExists d (firstBuyTime record) (lastSellTime record) (itemOf record) of
              (Inl rowError, d1) \<Rightarrow> (c\<lparr>errors := errors c + 1\<rparr>, d1)
            | (Inr exists, d1) \<Rightarrow>
                if \<not> exists then
                  (case insertRecord d1 record of
                     (Inl rowError, d2) \<Rightarrow> (c\<lparr>errors := errors c + 1\<rparr>, d2)
                   | (Inr result, d2) \<Rightarrow>
                       if changes result > 0 then (c\<lparr>newRecords := newRecords c + 1\<rparr>, d2)
                       else (c, d2))
                else (c\<lparr>duplicates := duplicates c + 1\<rparr>, d1)))"

fun process_rows :: "raw_row list \<Rightarrow> counters \<times> db \<Rightarrow> counters \<times> db" where
  "process_rows [] s = s"
| "process_rows (row # results) s = process_rows results (process_row row s)"

text \<open>
  \<^verbatim>\<open>processCsvFile\<close> from the \<^verbatim>\<open>end\<close> event on, with the rows the reader collected: the
  loop, then the total from \<^verbatim>\<open>getDashboardStats\<close>, whose failure rejects the import.
\<close>

definition processCsvFile :: "db \<Rightarrow> raw_row list \<Rightarrow> (error + import_result) \<times> db" where
  "processCsvFile d results =
     (case process_rows results (\<lparr>newRecords = 0, duplicates = 0, errors = 0\<rparr>, d) of
        (c, d1) \<Rightarrow>
          (case getDashboardStats d1 of
             (Inl error, d2) \<Rightarrow> (Inl error, d2)
           | (Inr stats, d2) \<Rightarrow>
               (Inr \<lparr>newRecords = newRecords c, duplicates = duplicates c, errors = errors c,
                     totalInDb = totalRecords stats\<rparr>, d2)))"

section \<open>Example stores\<close>

text \<open>
  The stores used as concrete inputs below are built by the import itself, from CSV rows
  with the export's column labels; an empty cell is the empty string.
\<close>

definition empty_db :: db where
  "empty_db = \<lparr>trading_records = [], sqlite_sequence = 0, last_insert_rowid = 0,
     current_timestamp = 0, failures = []\<rparr>"

definition csv_row :: "string \<Rightarrow> string \<Rightarrow> string \<Rightarrow> string \<Rightarrow> string \<Rightarrow> string \<Rightarrow> raw_row" where
  "csv_row fbt lst acc it st pr =
     [''First buy time'' \<mapsto> fbt, ''Last sell time'' \<mapsto> lst, ''Account'' \<mapsto> acc,
      ''Item'' \<mapsto> it, ''Status'' \<mapsto> st, ''Profit'' \<mapsto> pr]"

definition import_at :: "nat \<Rightarrow> raw_row list \<Rightarrow> db \<Rightarrow> db" where
  "import_at t results d = snd (processCsvFile (d\<lparr>current_timestamp := t\<rparr>) results)"

definition rune_row :: "string \<Rightarrow> raw_row" where
  "rune_row pr = csv_row ''T1'' ''T2'' ''main'' ''Rune scimitar'' ''FINISHED'' pr"


definition lower_db :: db where
  "lower_db =
     import_at 0 [csv_row ''T1'' ''T2'' ''main'' ''Rune scimitar'' ''finished'' ''5''] empty_db"

definition null_key_row :: raw_row where
  "null_key_row = csv_row [] ''T2'' ''main'' ''Rune scimitar'' ''FINISHED'' ''9''"

definition null_key_db :: db where
  "null_key_db = import_at 0 [null_key_row] empty_db"

definition no_account_row :: raw_row where
  "no_account_row = csv_row [] ''T2'' [] ''Rune scimitar'' ''FINISHED'' ''9''"

definition two_day_db :: db where
  "two_day_db =
     import_at 86400 [csv_row ''T3'' ''T4'' ''main'' ''Shark'' ''FINISHED'' ''-5'']
       (import_at 0 [csv_row ''T1'' ''T2'' ''main'' ''Rune scimitar'' ''FINISHED'' ''10''] empty_db)"

definition loss_db :: db where
  "loss_db =
     import_at 86400 [csv_row ''T3'' ''T4'' ''main'' ''Shark'' ''FINISHED'' ''10'']
       (import_at 0 [csv_row ''T1'' ''T2'' ''main'' ''Rune scimitar'' ''FINISHED'' ''-198000100'']
          empty_db)"

text \<open>
  A run in which every call of \<^verbatim>\<open>Math.random()\<close> returns the same value, and the list a
  call of \<^verbatim>\<open>getTimelineData\<close> resolves with (empty when it rejects).
\<close>

definition fixed_random :: "rat \<Rightarrow> nat \<Rightarrow> rat" where
  "fixed_random r k = r"

definition timeline_of :: "(error + timeline_day list) \<times> db \<Rightarrow> timeline_day list" where
  "timeline_of res = (case fst res of Inl e \<Rightarrow> [] | Inr points \<Rightarrow> points)"

text \<open>
  A store with a finished and a selling record of two items on one day, a daily row
  with a given profit, a store whose coming driver calls have the given outcomes, and
  a row whose profit cell holds no number.
\<close>

definition mixed_db :: db where
  "mixed_db =
     import_at 0
       [csv_row ''T1'' ''T2'' ''main'' ''Rune scimitar'' ''FINISHED'' ''5'',
        csv_row ''T3'' ''T4'' ''main'' ''Shark'' ''SELLING'' ''7'']
       empty_db"

definition profit_day :: "nat \<Rightarrow> int \<Rightarrow> daily" where
  "profit_day dt p =
     \<lparr>date = dt, totalTrades = 1, dailyProfit = p, finishedTrades = 1, activeTrades = 0,
      topItem = ''Shark'', topItemProfit = p\<rparr>"

definition failing_db :: "bool list \<Rightarrow> db" where
  "failing_db fs = empty_db\<lparr>failures := fs\<rparr>"

definition abc_row :: raw_row where
  "abc_row = csv_row ''T1'' ''T2'' ''main'' ''Rune scimitar'' ''FINISHED'' ''abc''"

section \<open>The store calls of a row\<close>

text \<open>
  The two store calls of the loop body for a row: its duplicate check on the store, and
  its insert on the store the duplicate check leaves. A cell is without a number when
  neither column is there or \<^verbatim>\<open>parseInt\<close> of the chosen one is \<^verbatim>\<open>NaN\<close>.
\<close>

definition row_exists :: "db \<Rightarrow> raw_row \<Rightarrow> (error + bool) \<times> db" where
  "row_exists d row =
     recordExists d (firstBuyTime (row_record row)) (lastSellTime (row_record row))
       (itemOf (row_record row))"

definition row_insert :: "db \<Rightarrow> raw_row \<Rightarrow> (error + run_result) \<times> db" where
  "row_insert d row = insertRecord (snd (row_exists d row)) (row_record row)"

definition no_number :: "raw_row \<Rightarrow> string \<Rightarrow> string \<Rightarrow> bool" where
  "no_number row a b =
     (case either_column row a b of None \<Rightarrow> True | Some t \<Rightarrow> parseInt t = None)"

definition no_counts :: counters where
  "no_counts = \<lparr>newRecords = 0, duplicates = 0, errors = 0\<rparr>"

section \<open>Properties\<close>

subsection \<open>Driver calls and natural keys\<close>

lemma driver_call_no_failures: "failures d = [] \<Longrightarrow> driver_call d = (False, d)"
  by (simp add: driver_call_def)

lemma driver_calls_no_failures: "failures d = [] \<Longrightarrow> driver_calls n d = (False, d)"
  by (induction n) (simp_all add: driver_call_no_failures)

lemma driver_call_rows: "trading_records (snd (driver_call d)) = trading_records d"
  by (simp add: driver_call_def split: list.splits)


lemma driver_calls_rows: "trading_records (snd (driver_calls n d)) = trading_records d"
proof (induction n arbitrary: d)
  case 0
  show ?case by simp
next
  case (Suc n)
  obtain f d1 where a: "driver_call d = (f, d1)"
    by (cases "driver_call d")
  obtain g d2 where b: "driver_calls n d1 = (g, d2)"
    by (cases "driver_calls n d1")
  have "trading_records d2 = trading_records d1"
    using Suc.IH [of d1] b by simp
  moreover have "trading_records d1 = trading_records d"
    using driver_call_rows [of d] a by simp
  ultimately show ?case
    using a b by simp
qed

lemma sql_eq_None: "sql_eq a None = False"
  by (cases a) simp_all

lemma key_count_null: "f = None \<or> l = None \<or> i = None \<Longrightarrow> key_count t f l i = 0"
  by (auto simp: key_count_def key_matches_def sql_eq_None)


subsection \<open>The example stores, evaluated\<close>

lemmas import_defs = import_at_def processCsvFile_def process_row_def row_record_def
  either_column_def recordExists_def driver_call_no_failures driver_calls_no_failures
  key_count_def key_matches_def insertRecord_def insert_or_ignore_def getDashboardStats_def
  q_totalRecords_def or_zero_def parseInt_value_def parseInt_def is_white_space_def
  is_digit_def digit_of_def Let_def csv_row_def empty_db_def


lemma lower_db_eq:
  "lower_db =
     \<lparr>trading_records =
        [\<lparr>rowid = 1, first_buy_time = Some ''T1'', last_sell_time = Some ''T2'',
          account = ''main'', item = ''Rune scimitar'', status = ''finished'', bought = 0,
          sold = 0, avg_buy_price = 0, avg_sell_price = 0, tax = 0, profit = 5,
          profit_ea = 0, import_date = 0\<rparr>],
      sqlite_sequence = 1, last_insert_rowid = 1, current_timestamp = 0, failures = []\<rparr>"
  by (simp add: lower_db_def import_defs)

lemma null_key_db_eq:
  "null_key_db =
     \<lparr>trading_records =
        [\<lparr>rowid = 1, first_buy_time = None, last_sell_time = Some ''T2'',
          account = ''main'', item = ''Rune scimitar'', status = ''FINISHED'', bought = 0,
          sold = 0, avg_buy_price = 0, avg_sell_price = 0, tax = 0, profit = 9,
          profit_ea = 0, import_date = 0\<rparr>],
      sqlite_sequence = 1, last_insert_rowid = 1, current_timestamp = 0, failures = []\<rparr>"
  by (simp add: null_key_db_def null_key_row_def import_defs)

lemma two_day_db_eq:
  "two_day_db =
     \<lparr>trading_records =
        [\<lparr>rowid = 1, first_buy_time = Some ''T1'', last_sell_time = Some ''T2'',
          account = ''main'', item = ''Rune scimitar'', status = ''FINISHED'', bought = 0,
          sold = 0, avg_buy_price = 0, avg_sell_price = 0, tax = 0, profit = 10,
          profit_ea = 0, import_date = 0\<rparr>,
         \<lparr>rowid = 2, first_buy_time = Some ''T3'', last_sell_time = Some ''T4'',
          account = ''main'', item = ''Shark'', status = ''FINISHED'', bought = 0,
          sold = 0, avg_buy_price = 0, avg_sell_price = 0, tax = 0, profit = - 5,
          profit_ea = 0, import_date = 86400\<rparr>],
      sqlite_sequence = 2, last_insert_rowid = 2, current_timestamp = 86400, failures = []\<rparr>"
  by (simp add: two_day_db_def import_defs)

lemma loss_db_eq:
  "loss_db =
     \<lparr>trading_records =
        [\<lparr>rowid = 1, first_buy_time = Some ''T1'', last_sell_time = Some ''T2'',
          account = ''main'', item = ''Rune scimitar'', status = ''FINISHED'', bought = 0,
          sold = 0, avg_buy_price = 0, avg_sell_price = 0, tax = 0, profit = - 198000100,
          profit_ea = 0, import_date = 0\<rparr>,
         \<lparr>rowid = 2, first_buy_time = Some ''T3'', last_sell_time = Some ''T4'',
          account = ''main'', item = ''Shark'', status = ''FINISHED'', bought = 0,
          sold = 0, avg_buy_price = 0, avg_sell_price = 0, tax = 0, profit = 10,
          profit_ea = 0, import_date = 86400\<rparr>],
      sqlite_sequence = 2, last_insert_rowid = 2, current_timestamp = 86400, failures = []\<rparr>"
  by (simp add: loss_db_def import_defs)

lemma mixed_db_eq:
  "mixed_db =
     \<lparr>trading_records =
        [\<lparr>rowid = 1, first_buy_time = Some ''T1'', last_sell_time = Some ''T2'',
          account = ''main'', item = ''Rune scimitar'', status = ''FINISHED'', bought = 0,
          sold = 0, avg_buy_price = 0, avg_sell_price = 0, tax = 0, profit = 5,
          profit_ea = 0, import_date = 0\<rparr>,
         \<lparr>rowid = 2, first_buy_time = Some ''T3'', last_sell_time = Some ''T4'',
          account = ''main'', item = ''Shark'', status = ''SELLING'', bought = 0,
          sold = 0, avg_buy_price = 0, avg_sell_price = 0, tax = 0, profit = 7,
          profit_ea = 0, import_date = 0\<rparr>],
      sqlite_sequence = 2, last_insert_rowid = 2, current_timestamp = 0, failures = []\<rparr>"
  by (simp add: mixed_db_def import_defs)


lemma null_key_row_record:
  "row_record null_key_row =
     \<lparr>firstBuyTime = None, lastSellTime = Some ''T2'', accountOf = Some ''main'',
      itemOf = Some ''Rune scimitar'', statusOf = Some ''FINISHED'', boughtOf = 0, soldOf = 0,
      avgBuyPrice = 0, avgSellPrice = 0, taxOf = 0, profitOf = 9, profitEa = 0\<rparr>"
  by (simp add: null_key_row_def import_defs)

lemma no_account_row_record:
  "row_record no_account_row =
     \<lparr>firstBuyTime = None, lastSellTime = Some ''T2'', accountOf = None,
      itemOf = Some ''Rune scimitar'', statusOf = Some ''FINISHED'', boughtOf = 0, soldOf = 0,
      avgBuyPrice = 0, avgSellPrice = 0, taxOf = 0, profitOf = 9, profitEa = 0\<rparr>"
  by (simp add: no_account_row_def import_defs)

subsection \<open>Insertion and the natural key\<close>




lemma insert_or_ignore_null_key:
  assumes "firstBuyTime r = None \<or> lastSellTime r = None"
    and "accountOf r = Some a" and "itemOf r = Some i" and "statusOf r = Some s"
  shows "changes (fst (insert_or_ignore d r)) = 1 \<and>
         length (trading_records (snd (insert_or_ignore d r))) = Suc (length (trading_records d)) \<and>
         failures (snd (insert_or_ignore d r)) = failures d"
  using assms key_count_null [of "firstBuyTime r" "lastSellTime r" "itemOf r" "trading_records d"]
  by (auto simp: insert_or_ignore_def Let_def)

lemma process_row_null_key:
  assumes "firstBuyTime (row_record row) = None \<or> lastSellTime (row_record row) = None"
    and "accountOf (row_record row) = Some a" and "itemOf (row_record row) = Some i"
    and "statusOf (row_record row) = Some s"
    and "failures d = []"
  shows "fst (process_row row (c, d)) = c\<lparr>newRecords := newRecords c + 1\<rparr> \<and>
         length (trading_records (snd (process_row row (c, d)))) =
           Suc (length (trading_records d)) \<and>
         failures (snd (process_row row (c, d))) = []"
proof -
  let ?r = "row_record row"
  have ex: "recordExists d (firstBuyTime ?r) (lastSellTime ?r) (itemOf ?r) = (Inr False, d)"
    using assms(1,5) key_count_null [of "firstBuyTime ?r" "lastSellTime ?r"]
    by (auto simp: recordExists_def driver_call_no_failures)
  obtain res d2 where ioi: "insert_or_ignore d ?r = (res, d2)"
    by (cases "insert_or_ignore d ?r")
  have ins: "insertRecord d ?r = (Inr res, d2)"
    using assms(5) ioi by (simp add: insertRecord_def driver_call_no_failures)
  have "changes res = 1" "length (trading_records d2) = Suc (length (trading_records d))"
    "failures d2 = []"
    using insert_or_ignore_null_key [OF assms(1-4), of d] ioi assms(5) by simp_all
  then show ?thesis
    using ex ins by (simp add: process_row_def Let_def)
qed

text \<open>
  C10 (as amended). For a record whose first buy time or last sell time is NULL,
  \<^verbatim>\<open>recordExists\<close> answers false on every store (when its driver call goes through), and
  when account, item and status are present every insert of the record stores a new
  row; importing the same such row twice stores it twice.
\<close>

theorem null_key_not_deduplicated:
  assumes "firstBuyTime r = None \<or> lastSellTime r = None"
  shows "(\<not> fst (driver_call d) \<longrightarrow>
            fst (recordExists d (firstBuyTime r) (lastSellTime r) (itemOf r)) = Inr False) \<and>
         (\<not> fst (driver_call d) \<and>
          accountOf r \<noteq> None \<and> itemOf r \<noteq> None \<and> statusOf r \<noteq> None \<longrightarrow>
            fst (insertRecord d r) = Inr \<lparr>lastID = Suc (sqlite_sequence d), changes = 1\<rparr> \<and>
            length (trading_records (snd (insertRecord d r))) =
              Suc (length (trading_records d))) \<and>
         (failures d = [] \<and> row_record row = r \<and>
          accountOf r \<noteq> None \<and> itemOf r \<noteq> None \<and> statusOf r \<noteq> None \<longrightarrow>
            fst (processCsvFile d [row, row]) =
              Inr \<lparr>newRecords = 2, duplicates = 0, errors = 0,
                   totalInDb = length (trading_records d) + 2\<rparr>)"
proof (intro conjI impI)
  assume "\<not> fst (driver_call d)"
  then show "fst (recordExists d (firstBuyTime r) (lastSellTime r) (itemOf r)) = Inr False"
    using assms key_count_null [of "firstBuyTime r" "lastSellTime r"]
    by (cases "driver_call d") (auto simp: recordExists_def)
next
  assume a: "\<not> fst (driver_call d) \<and>
    accountOf r \<noteq> None \<and> itemOf r \<noteq> None \<and> statusOf r \<noteq> None"
  obtain d1 where dc: "driver_call d = (False, d1)"
    using a by (cases "driver_call d") auto
  have rows: "trading_records d1 = trading_records d"
    using driver_call_rows [of d] dc by simp
  have sq: "sqlite_sequence d1 = sqlite_sequence d"
    using dc by (auto simp: driver_call_def split: list.splits)
  have kc: "key_count (trading_records d1) (firstBuyTime r) (lastSellTime r) (itemOf r) = 0"
    using assms by (auto simp: key_count_null)
  show "fst (insertRecord d r) = Inr \<lparr>lastID = Suc (sqlite_sequence d), changes = 1\<rparr>"
    using a dc kc sq by (auto simp: insertRecord_def insert_or_ignore_def Let_def)
  show "length (trading_records (snd (insertRecord d r))) = Suc (length (trading_records d))"
    using a dc kc rows by (auto simp: insertRecord_def insert_or_ignore_def Let_def)
next
  assume a: "failures d = [] \<and> row_record row = r \<and>
    accountOf r \<noteq> None \<and> itemOf r \<noteq> None \<and> statusOf r \<noteq> None"
  then obtain ac it st where f: "accountOf (row_record row) = Some ac"
    "itemOf (row_record row) = Some it" "statusOf (row_record row) = Some st"
    by auto
  have k: "firstBuyTime (row_record row) = None \<or> lastSellTime (row_record row) = None"
    using a assms by simp
  let ?c0 = "\<lparr>newRecords = 0, duplicates = 0, errors = 0\<rparr>"
  obtain c1 d1 where s1: "process_row row (?c0, d) = (c1, d1)"
    by (cases "process_row row (?c0, d)")
  have p1: "c1 = ?c0\<lparr>newRecords := 1\<rparr>"
    "length (trading_records d1) = Suc (length (trading_records d))" "failures d1 = []"
    using process_row_null_key [OF k f, of d ?c0] a s1 by simp_all
  obtain c2 d2 where s2: "process_row row (c1, d1) = (c2, d2)"
    by (cases "process_row row (c1, d1)")
  have p2: "c2 = c1\<lparr>newRecords := newRecords c1 + 1\<rparr>"
    "length (trading_records d2) = Suc (length (trading_records d1))" "failures d2 = []"
    using process_row_null_key [OF k f p1(3), of c1] s2 by simp_all
  show "fst (processCsvFile d [row, row]) =
          Inr \<lparr>newRecords = 2, duplicates = 0, errors = 0,
               totalInDb = length (trading_records d) + 2\<rparr>"
    using s1 s2 p1 p2
    by (simp add: processCsvFile_def getDashboardStats_def driver_calls_no_failures
        q_totalRecords_def)
qed

theorem null_key_not_deduplicated_witness:
  "(firstBuyTime (row_record null_key_row) = None \<or>
    lastSellTime (row_record null_key_row) = None) \<and>
   \<not> fst (driver_call null_key_db) \<and> failures null_key_db = [] \<and>
   accountOf (row_record null_key_row) \<noteq> None \<and> itemOf (row_record null_key_row) \<noteq> None \<and>
   statusOf (row_record null_key_row) \<noteq> None \<and>
   fst (recordExists null_key_db (firstBuyTime (row_record null_key_row))
          (lastSellTime (row_record null_key_row)) (itemOf (row_record null_key_row))) =
     Inr False \<and>
   fst (insertRecord null_key_db (row_record null_key_row)) = Inr \<lparr>lastID = 2, changes = 1\<rparr> \<and>
   length (trading_records (snd (insertRecord null_key_db (row_record null_key_row)))) = 2 \<and>
   fst (processCsvFile null_key_db [null_key_row, null_key_row]) =
     Inr \<lparr>newRecords = 2, duplicates = 0, errors = 0, totalInDb = 3\<rparr>"
proof -
  have h1: "firstBuyTime (row_record null_key_row) = None \<or>
      lastSellTime (row_record null_key_row) = None"
    by (simp add: null_key_row_record)
  have h2: "\<not> fst (driver_call null_key_db)" and h3: "failures null_key_db = []"
    by (simp_all add: null_key_db_eq driver_call_no_failures)
  have h4: "accountOf (row_record null_key_row) \<noteq> None"
    "itemOf (row_record null_key_row) \<noteq> None" "statusOf (row_record null_key_row) \<noteq> None"
    by (simp_all add: null_key_row_record)
  have h5: "sqlite_sequence null_key_db = 1" "length (trading_records null_key_db) = 1"
    by (simp_all add: null_key_db_eq)
  show ?thesis
    using null_key_not_deduplicated [OF h1, of null_key_db null_key_row] h1 h2 h3 h4 h5
    by simp
qed

text \<open>
  C10 as stated fails for a record that also lacks its account: the \<^verbatim>\<open>NOT NULL\<close>
  constraint makes \<^verbatim>\<open>INSERT OR IGNORE\<close> skip the row, so no row is created.
\<close>

theorem insert_without_account_counterexample:
  "firstBuyTime (row_record no_account_row) = None \<and>
   fst (insertRecord empty_db (row_record no_account_row)) = Inr \<lparr>lastID = 0, changes = 0\<rparr> \<and>
   trading_records (snd (insertRecord empty_db (row_record no_account_row))) = []"
  by (simp add: no_account_row_record empty_db_def insertRecord_def insert_or_ignore_def
      driver_call_def Let_def)

subsection \<open>The dashboard\<close>

lemma getDashboardStats_Inr:
  assumes "fst (getDashboardStats d) = Inr s"
  shows "s = \<lparr>totalProfit = q_totalProfit (trading_records d),
              completedFlips = q_completedFlips (trading_records d),
              totalRecords = q_totalRecords (trading_records d),
              topFlips = q_topFlips (trading_records d),
              topItems = q_topItems (trading_records d)\<rparr>"
proof -
  obtain f d1 where dc: "driver_calls 5 d = (f, d1)"
    by (cases "driver_calls 5 d")
  have "trading_records d1 = trading_records d"
    using driver_calls_rows [of 5 d] dc by simp
  then show ?thesis
    using assms dc by (cases f) (simp_all add: getDashboardStats_def)
qed

lemma q_topFlips_length: "length (q_topFlips t) = min 10 (length t)"
  by (simp add: q_topFlips_def min.commute)

lemma sorted_by_profit_desc: "sorted_wrt (\<lambda>a b. profit b \<le> profit a) (sort_key (\<lambda>r. - profit r) t)"
proof -
  have "sorted (map (\<lambda>r. - profit r) (sort_key (\<lambda>r. - profit r) t))"
    by (rule sorted_sort_key)
  then show ?thesis
    by (simp add: sorted_map)
qed

lemma q_topFlips_sorted: "sorted_wrt (\<lambda>a b. profit b \<le> profit a) (q_topFlips t)"
proof -
  let ?s = "sort_key (\<lambda>r. - profit r) t"
  have "sorted_wrt (\<lambda>a b. profit b \<le> profit a) (take 10 ?s @ drop 10 ?s)"
    using sorted_by_profit_desc [of t] by simp
  then have "sorted_wrt (\<lambda>a b. profit b \<le> profit a) (take 10 ?s)"
    unfolding sorted_wrt_append by blast
  then show ?thesis
    by (simp add: q_topFlips_def)
qed

lemma q_topFlips_rest:
  "mset t = mset (q_topFlips t) + mset (drop 10 (sort_key (\<lambda>r. - profit r) t))"
proof -
  have "mset (sort_key (\<lambda>r. - profit r) t) =
        mset (take 10 (sort_key (\<lambda>r. - profit r) t) @ drop 10 (sort_key (\<lambda>r. - profit r) t))"
    by simp
  then show ?thesis
    unfolding q_topFlips_def by (simp del: append_take_drop_id)
qed

lemma q_topFlips_top:
  assumes "x \<in># mset t - mset (q_topFlips t)" and "y \<in> set (q_topFlips t)"
  shows "profit x \<le> profit y"
proof -
  let ?s = "sort_key (\<lambda>r. - profit r) t"
  have "mset t - mset (q_topFlips t) = mset (drop 10 ?s)"
    using q_topFlips_rest [of t] by simp
  then have x: "x \<in> set (drop 10 ?s)"
    using assms(1) by simp
  have y: "y \<in> set (take 10 ?s)"
    using assms(2) by (simp add: q_topFlips_def)
  have "sorted_wrt (\<lambda>a b. profit b \<le> profit a) (take 10 ?s @ drop 10 ?s)"
    using sorted_by_profit_desc [of t] by simp
  then show ?thesis
    using x y unfolding sorted_wrt_append by blast
qed

text \<open>
  C7. Whenever \<^verbatim>\<open>getDashboardStats\<close> resolves, \<^verbatim>\<open>topFlips\<close> has at most ten rows, in
  non-increasing order of profit. No status filter applies: the list has ten rows or
  all rows of the table, its rows are rows of the table, and every row left out has a
  profit no larger than each row listed, whatever its status.
\<close>

theorem topFlips_top_ten:
  assumes "fst (getDashboardStats d) = Inr s"
  shows "length (topFlips s) \<le> 10 \<and>
         sorted_wrt (\<lambda>a b. profit a \<ge> profit b) (topFlips s) \<and>
         length (topFlips s) = min 10 (length (trading_records d)) \<and>
         mset (topFlips s) \<subseteq># mset (trading_records d) \<and>
         (\<forall>x y. x \<in># mset (trading_records d) - mset (topFlips s) \<and> y \<in> set (topFlips s)
            \<longrightarrow> profit x \<le> profit y)"
proof -
  have tf: "topFlips s = q_topFlips (trading_records d)"
    using getDashboardStats_Inr [OF assms] by simp
  have "mset (q_topFlips (trading_records d)) \<subseteq># mset (trading_records d)"
    using q_topFlips_rest [of "trading_records d"] by (metis mset_subset_eq_add_left)
  then show ?thesis
    unfolding tf
    using q_topFlips_length [of "trading_records d"] q_topFlips_sorted [of "trading_records d"]
      q_topFlips_top [of _ "trading_records d"]
    by auto
qed

theorem topFlips_top_ten_witness:
  "fst (getDashboardStats mixed_db) =
     Inr \<lparr>totalProfit = 5, completedFlips = 1, totalRecords = 2,
          topFlips = rev (trading_records mixed_db), topItems = [(''Rune scimitar'', 5)]\<rparr> \<and>
   map status (rev (trading_records mixed_db)) = [''SELLING'', ''FINISHED''] \<and>
   map profit (rev (trading_records mixed_db)) = [7, 5] \<and>
   length (rev (trading_records mixed_db)) \<le> 10 \<and>
   sorted_wrt (\<lambda>a b. profit a \<ge> profit b) (rev (trading_records mixed_db)) \<and>
   length (rev (trading_records mixed_db)) = min 10 (length (trading_records mixed_db))"
proof -
  have h: "fst (getDashboardStats mixed_db) =
     Inr \<lparr>totalProfit = 5, completedFlips = 1, totalRecords = 2,
          topFlips = rev (trading_records mixed_db), topItems = [(''Rune scimitar'', 5)]\<rparr>"
    by (simp add: mixed_db_eq getDashboardStats_def driver_calls_no_failures q_totalProfit_def
        q_completedFlips_def q_totalRecords_def q_topFlips_def q_topItems_def finished_def
        sql_sum_def total_or_zero_def)
  have v: "map status (rev (trading_records mixed_db)) = [''SELLING'', ''FINISHED'']"
    "map profit (rev (trading_records mixed_db)) = [7, 5]"
    by (simp_all add: mixed_db_eq)
  show ?thesis
    using topFlips_top_ten [OF h] h v by simp
qed

text \<open>
  C1 at a store whose only row has the status \<^verbatim>\<open>finished\<close> and profit 5: the listing
  filtered by \<^verbatim>\<open>FINISHED\<close> returns the row (it folds the case), while the dashboard and
  the daily rollup compare the status exactly and count nothing.
\<close>

theorem lower_case_status_not_counted:
  "map status (trading_records lower_db) = [''finished''] \<and>
   map profit (trading_records lower_db) = [5] \<and>
   fst (getRecords lower_db (Some ''FINISHED'')) = Inr (trading_records lower_db) \<and>
   fst (getDashboardStats lower_db) =
     Inr \<lparr>totalProfit = 0, completedFlips = 0, totalRecords = 1,
          topFlips = trading_records lower_db, topItems = []\<rparr> \<and>
   fst (getDailyReturns lower_db) =
     Inr [\<lparr>date = 0, totalTrades = 1, dailyProfit = 0, finishedTrades = 0, activeTrades = 0,
           topItem = ''No completed trades'', topItemProfit = 0\<rparr>]"
  by (simp add: lower_db_eq getRecords_def UPPER_def upper_char_def getDashboardStats_def
      driver_call_no_failures driver_calls_no_failures q_totalProfit_def q_completedFlips_def
      q_totalRecords_def q_topFlips_def q_topItems_def finished_def sql_sum_def
      total_or_zero_def getDailyReturns_def q_daily_def daily_group_def on_date_def DATE_def
      addTopItemsToDaily_def Let_def)

subsection \<open>The timeline loop\<close>

lemma timeline_loop_length: "length (timeline_loop rnd j c p days) = length days"
  by (induction days arbitrary: j c p) (simp_all add: Let_def)

lemma timeline_loop_date: "map date (timeline_loop rnd j c p days) = map date days"
  by (induction days arbitrary: j c p) (simp_all add: Let_def)

lemma timeline_loop_dailyProfit:
  "map dailyProfit (timeline_loop rnd j c p days) = map dailyProfit days"
  by (induction days arbitrary: j c p) (simp_all add: Let_def)

lemma timeline_loop_netWorth_nth:
  "k < length days \<Longrightarrow>
   netWorth (timeline_loop rnd j c p days ! k) = c + sum_list (map dailyProfit (take (Suc k) days))"
proof (induction days arbitrary: j c p k)
  case Nil
  then show ?case by simp
next
  case (Cons day days)
  show ?case
  proof (cases k)
    case 0
    then show ?thesis by (simp add: Let_def)
  next
    case (Suc k')
    then have "k' < length days"
      using Cons.prems by simp
    from Cons.IH [OF this, of "Suc j" "c + dailyProfit day" "c + dailyProfit day"]
    show ?thesis
      using Suc by (simp add: Let_def)
  qed
qed

lemma timeline_loop_roi:
  "x \<in> set (timeline_loop rnd j c p days) \<Longrightarrow>
   roi x = (if int (finishedTrades x) * 100000 > 0
            then of_int (dailyProfit x * 100) / of_int (int (finishedTrades x) * 100000)
            else 0)"
proof (induction days arbitrary: j c p)
  case Nil
  then show ?case by simp
next
  case (Cons day days)
  from Cons.prems consider
    (head) "x = hd (timeline_loop rnd j c p (day # days))"
    | (rest) "x \<in> set (timeline_loop rnd (Suc j) (c + dailyProfit day) (c + dailyProfit day) days)"
    by (auto simp: Let_def)
  then show ?case
  proof cases
    case head
    then show ?thesis by (simp add: Let_def)
  next
    case rest
    then show ?thesis by (rule Cons.IH)
  qed
qed

lemma timeline_loop_growth:
  "x \<in> set (timeline_loop rnd j c c days) \<Longrightarrow>
   growth x = (if netWorth x - dailyProfit x > 0
               then of_int (dailyProfit x * 100) / of_int (netWorth x - dailyProfit x)
               else 0)"
proof (induction days arbitrary: j c)
  case Nil
  then show ?case by simp
next
  case (Cons day days)
  from Cons.prems consider
    (head) "x = hd (timeline_loop rnd j c c (day # days))"
    | (rest) "x \<in> set (timeline_loop rnd (Suc j) (c + dailyProfit day) (c + dailyProfit day) days)"
    by (auto simp: Let_def)
  then show ?case
  proof cases
    case head
    then show ?thesis by (simp add: Let_def)
  next
    case rest
    then show ?thesis by (rule Cons.IH)
  qed
qed

lemma timeline_loop_growth_nth:
  "k < length days \<Longrightarrow>
   growth (timeline_loop rnd j c p days ! k) =
     (if (if k = 0 then p else netWorth (timeline_loop rnd j c p days ! (k - 1))) > 0
      then of_int (dailyProfit (days ! k) * 100) /
           of_int (if k = 0 then p else netWorth (timeline_loop rnd j c p days ! (k - 1)))
      else 0)"
proof (induction days arbitrary: j c p k)
  case Nil
  then show ?case by simp
next
  case (Cons day days)
  show ?case
  proof (cases k)
    case 0
    then show ?thesis by (simp add: Let_def)
  next
    case (Suc k')
    then have k': "k' < length days"
      using Cons.prems by simp
    from Cons.IH [OF this, of "Suc j" "c + dailyProfit day" "c + dailyProfit day"]
    show ?thesis
      using Suc by (cases k') (simp_all add: Let_def)
  qed
qed

lemma timeline_loop_roi_nth:
  assumes "k < length days"
  shows "roi (timeline_loop rnd j c p days ! k) =
     (if int (finishedTrades (days ! k)) * 100000 > 0
      then of_int (dailyProfit (days ! k) * 100) / of_int (int (finishedTrades (days ! k)) * 100000)
      else 0)"
  using assms
proof (induction days arbitrary: j c p k)
  case Nil
  then show ?case by simp
next
  case (Cons day days)
  show ?case
  proof (cases k)
    case 0
    then show ?thesis by (simp add: Let_def)
  next
    case (Suc k')
    then have "k' < length days"
      using Cons.prems by simp
    from Cons.IH [OF this, of "Suc j" "c + dailyProfit day" "c + dailyProfit day"]
    show ?thesis
      using Suc by (simp add: Let_def)
  qed
qed

subsection \<open>Days of the rollup and of the timeline\<close>

lemma date_addTopItemsToDaily: "date (addTopItemsToDaily t day) = date day"
  by (simp add: addTopItemsToDaily_def split: list.splits)

lemma date_q_daily:
  "map date (q_daily t) =
     sort_key (\<lambda>dt. - int dt) (remdups (map (\<lambda>r. DATE (import_date r)) t))"
  by (simp add: q_daily_def daily_group_def comp_def)

lemma getDailyReturns_Inr:
  assumes "fst (getDailyReturns d) = Inr dd"
  shows "dd = map (addTopItemsToDaily (trading_records d)) (q_daily (trading_records d))"
proof -
  obtain f d1 where dc: "driver_call d = (f, d1)"
    by (cases "driver_call d")
  obtain g d2 where dcs: "driver_calls (length (q_daily (trading_records d1))) d1 = (g, d2)"
    by (cases "driver_calls (length (q_daily (trading_records d1))) d1")
  have "trading_records d1 = trading_records d"
    using driver_call_rows [of d] dc by simp
  then show ?thesis
    using assms dc dcs by (cases f; cases g) (simp_all add: getDailyReturns_def Let_def)
qed

lemma getDailyReturns_distinct_dates:
  assumes "fst (getDailyReturns d) = Inr dd"
  shows "distinct (map date dd)"
proof -
  have "map date dd = map date (q_daily (trading_records d))"
    unfolding getDailyReturns_Inr [OF assms] by (simp add: comp_def date_addTopItemsToDaily)
  then show ?thesis
    by (simp add: date_q_daily)
qed

lemma sort_key_date_strict:
  fixes dd :: "daily list"
  assumes "distinct (map date dd)"
  shows "sorted_wrt (<) (map date (sort_key date dd))"
proof -
  have "mset (map date (sort_key date dd)) = mset (map date dd)"
    by simp
  then have "distinct (map date (sort_key date dd))"
    using assms mset_eq_imp_distinct_iff by blast
  moreover have "sorted (map date (sort_key date dd))"
    by (rule sorted_sort_key)
  ultimately show ?thesis
    by (simp add: strict_sorted_iff)
qed

lemma filter_upto_nth:
  fixes f :: "'a \<Rightarrow> nat"
  assumes "sorted_wrt (<) (map f xs)" and "k < length xs"
  shows "filter (\<lambda>q. f q \<le> f (xs ! k)) xs = take (Suc k) xs"
proof -
  have lt: "\<And>i j. i < j \<Longrightarrow> j < length xs \<Longrightarrow> f (xs ! i) < f (xs ! j)"
    using assms(1) by (simp add: sorted_wrt_iff_nth_less)
  have low: "\<forall>q \<in> set (take (Suc k) xs). f q \<le> f (xs ! k)"
  proof
    fix q
    assume "q \<in> set (take (Suc k) xs)"
    then obtain i where i: "i < Suc k" "i < length xs" "q = xs ! i"
      by (auto simp: in_set_conv_nth)
    show "f q \<le> f (xs ! k)"
    proof (cases "i = k")
      case True
      then show ?thesis using i by simp
    next
      case False
      then have "i < k" using i by simp
      from lt [OF this assms(2)] show ?thesis using i by simp
    qed
  qed
  have high: "\<forall>q \<in> set (drop (Suc k) xs). \<not> f q \<le> f (xs ! k)"
  proof
    fix q
    assume "q \<in> set (drop (Suc k) xs)"
    then obtain i where i0: "i < length (drop (Suc k) xs)" "q = drop (Suc k) xs ! i"
      by (metis in_set_conv_nth)
    have i: "Suc k + i < length xs" "q = xs ! (Suc k + i)"
      using i0 by simp_all
    have "f (xs ! k) < f (xs ! (Suc k + i))"
      by (rule lt) (use i in simp_all)
    then show "\<not> f q \<le> f (xs ! k)"
      using i by simp
  qed
  have "filter (\<lambda>q. f q \<le> f (xs ! k)) (take (Suc k) xs @ drop (Suc k) xs) = take (Suc k) xs"
    unfolding filter_append using low high by (simp add: filter_id_conv filter_empty_conv)
  then show ?thesis
    by (simp del: take_Suc)
qed

lemma sum_filter_mset_cong:
  fixes f :: "'a \<Rightarrow> int"
  assumes "mset xs = mset ys"
  shows "sum_list (map f (filter P xs)) = sum_list (map f (filter P ys))"
proof -
  have "mset (map f (filter P xs)) = mset (map f (filter P ys))"
    using assms by simp
  then show ?thesis
    by (metis sum_mset_sum_list)
qed

lemma getTimelineData_Inr:
  assumes "fst (getTimelineData rnd d) = Inr points"
  shows "\<exists>dd. fst (getDailyReturns d) = Inr dd \<and>
           points = sort_key (\<lambda>p. - int (date p))
             (timeline_loop rnd 0 startingNetWorth startingNetWorth (sort_key date dd))"
proof -
  obtain res d1 where g: "getDailyReturns d = (res, d1)"
    by (cases "getDailyReturns d")
  show ?thesis
    using assms g by (cases res) (simp_all add: getTimelineData_def)
qed

lemma getTimelineData_netWorth:
  assumes "fst (getTimelineData rnd d) = Inr points" and "x \<in> set points"
  shows "netWorth x =
     startingNetWorth + sum_list (map dailyProfit (filter (\<lambda>q. date q \<le> date x) points))"
proof -
  obtain dd where dd: "fst (getDailyReturns d) = Inr dd"
    and pts: "points = sort_key (\<lambda>p. - int (date p))
      (timeline_loop rnd 0 startingNetWorth startingNetWorth (sort_key date dd))"
    using getTimelineData_Inr [OF assms(1)] by blast
  let ?asc = "sort_key date dd"
  let ?L = "timeline_loop rnd 0 startingNetWorth startingNetWorth ?asc"
  have "x \<in> set ?L"
    using assms(2) pts by simp
  then obtain k where k: "k < length ?L" "x = ?L ! k"
    by (auto simp: in_set_conv_nth)
  have klen: "k < length ?asc"
    using k(1) by (simp add: timeline_loop_length)
  have strict: "sorted_wrt (<) (map date ?L)"
    using sort_key_date_strict [OF getDailyReturns_distinct_dates [OF dd]]
    by (simp add: timeline_loop_date)
  have "netWorth x = startingNetWorth + sum_list (map dailyProfit (take (Suc k) ?asc))"
    using timeline_loop_netWorth_nth [OF klen] k(2) by simp
  also have "map dailyProfit (take (Suc k) ?asc) = take (Suc k) (map dailyProfit ?L)"
    by (simp only: timeline_loop_dailyProfit take_map)
  also have "\<dots> = map dailyProfit (take (Suc k) ?L)"
    by (simp only: take_map)
  also have "take (Suc k) ?L = filter (\<lambda>q. date q \<le> date x) ?L"
    using filter_upto_nth [OF strict k(1)] k(2) by simp
  also have "sum_list (map dailyProfit (filter (\<lambda>q. date q \<le> date x) ?L)) =
      sum_list (map dailyProfit (filter (\<lambda>q. date q \<le> date x) points))"
    by (rule sum_filter_mset_cong) (simp add: pts)
  finally show ?thesis .
qed

lemma getTimelineData_member:
  assumes "fst (getTimelineData rnd d) = Inr points" and "x \<in> set points"
  shows "\<exists>days. x \<in> set (timeline_loop rnd 0 startingNetWorth startingNetWorth days)"
proof -
  obtain dd where "points = sort_key (\<lambda>p. - int (date p))
      (timeline_loop rnd 0 startingNetWorth startingNetWorth (sort_key date dd))"
    using getTimelineData_Inr [OF assms(1)] by blast
  then have "x \<in> set (timeline_loop rnd 0 startingNetWorth startingNetWorth (sort_key date dd))"
    using assms(2) by simp
  then show ?thesis ..
qed

lemmas timeline_defs = timeline_of_def getTimelineData_def getDailyReturns_def q_daily_def
  daily_group_def on_date_def DATE_def addTopItemsToDaily_def finished_def
  startingNetWorth_def fixed_random_def driver_call_no_failures driver_calls_no_failures
  Let_def

lemma two_day_timeline:
  "getTimelineData (fixed_random 0) two_day_db =
     (Inr [\<lparr>date = 1, totalTrades = 1, dailyProfit = - 5, finishedTrades = 1, activeTrades = 0,
            topItem = ''Shark'', topItemProfit = - 5, items = 1, flips = 1,
            netWorth = 198000005, roi = - (1 / 200), growth = - (50 / 19800001)\<rparr>,
           \<lparr>date = 0, totalTrades = 1, dailyProfit = 10, finishedTrades = 1, activeTrades = 0,
            topItem = ''Rune scimitar'', topItemProfit = 10, items = 1, flips = 1,
            netWorth = 198000010, roi = 1 / 100, growth = 1 / 198000\<rparr>], two_day_db)"
  by (simp add: two_day_db_eq timeline_defs)

lemma loss_timeline:
  "getTimelineData (fixed_random 0) loss_db =
     (Inr [\<lparr>date = 1, totalTrades = 1, dailyProfit = 10, finishedTrades = 1, activeTrades = 0,
            topItem = ''Shark'', topItemProfit = 10, items = 1, flips = 1,
            netWorth = - 90, roi = 1 / 100, growth = 0\<rparr>,
           \<lparr>date = 0, totalTrades = 1, dailyProfit = - 198000100, finishedTrades = 1,
            activeTrades = 0, topItem = ''Rune scimitar'', topItemProfit = - 198000100,
            items = 1, flips = 1, netWorth = - 100, roi = - (1980001 / 10),
            growth = - (1980001 / 19800)\<rparr>], loss_db)"
  by (simp add: loss_db_eq timeline_defs)

subsection \<open>Net worth\<close>

text \<open>
  C3. The loop started with cumulative net worth \<open>s\<close> gives the \<open>k\<close>-th day it processes
  the net worth \<open>s\<close> plus the daily profits of the days up to and including it; the
  last day processed ends at \<open>s\<close> plus all daily profits; from 100 with the profits 10
  and -5 the net worths are 110 and 105. In the list \<^verbatim>\<open>getTimelineData\<close> returns, where
  the loop has run over the days in ascending date order from \<open>startingNetWorth\<close>, the
  day with the latest date carries \<open>startingNetWorth\<close> plus the sum of all daily profits.
\<close>

theorem timeline_net_worth_accumulates:
  "(k < length days \<longrightarrow>
      netWorth (timeline_loop rnd j s p days ! k) =
        s + sum_list (map dailyProfit (take (Suc k) days))) \<and>
   (days \<noteq> [] \<longrightarrow>
      netWorth (last (timeline_loop rnd j s p days)) = s + sum_list (map dailyProfit days)) \<and>
   (dailyProfit d1 = 10 \<and> dailyProfit d2 = - 5 \<longrightarrow>
      map netWorth (timeline_loop rnd j 100 p [d1, d2]) = [110, 105]) \<and>
   (fst (getTimelineData rnd d) = Inr points \<and> x \<in> set points \<and>
    (\<forall>q. q \<in> set points \<longrightarrow> date q \<le> date x) \<longrightarrow>
      netWorth x = startingNetWorth + sum_list (map dailyProfit points))"
proof (intro conjI impI)
  assume "k < length days"
  then show "netWorth (timeline_loop rnd j s p days ! k) =
      s + sum_list (map dailyProfit (take (Suc k) days))"
    by (rule timeline_loop_netWorth_nth)
next
  assume ne: "days \<noteq> []"
  then have k: "length days - 1 < length days"
    by simp
  have "last (timeline_loop rnd j s p days) = timeline_loop rnd j s p days ! (length days - 1)"
    using ne last_conv_nth [of "timeline_loop rnd j s p days"] timeline_loop_length [of rnd j s p days]
    by (metis length_0_conv)
  then show "netWorth (last (timeline_loop rnd j s p days)) = s + sum_list (map dailyProfit days)"
    using timeline_loop_netWorth_nth [OF k, of rnd j s p] ne by simp
next
  assume "dailyProfit d1 = 10 \<and> dailyProfit d2 = - 5"
  then show "map netWorth (timeline_loop rnd j 100 p [d1, d2]) = [110, 105]"
    by (simp add: Let_def)
next
  assume a: "fst (getTimelineData rnd d) = Inr points \<and> x \<in> set points \<and>
    (\<forall>q. q \<in> set points \<longrightarrow> date q \<le> date x)"
  then have "filter (\<lambda>q. date q \<le> date x) points = points"
    by (simp add: filter_id_conv)
  then show "netWorth x = startingNetWorth + sum_list (map dailyProfit points)"
    using getTimelineData_netWorth [of rnd d points x] a by simp
qed

theorem timeline_net_worth_accumulates_witness:
  "(1::nat) < length [profit_day 0 10, profit_day 1 (- 5)] \<and>
   [profit_day 0 10, profit_day 1 (- 5)] \<noteq> [] \<and>
   dailyProfit (profit_day 0 10) = 10 \<and> dailyProfit (profit_day 1 (- 5)) = - 5 \<and>
   netWorth (timeline_loop (fixed_random 0) 0 100 100 [profit_day 0 10, profit_day 1 (- 5)] ! 1)
     = 105 \<and>
   netWorth (last (timeline_loop (fixed_random 0) 0 100 100 [profit_day 0 10, profit_day 1 (- 5)]))
     = 105 \<and>
   map netWorth (timeline_loop (fixed_random 0) 0 100 100 [profit_day 0 10, profit_day 1 (- 5)])
     = [110, 105] \<and>
   fst (getTimelineData (fixed_random 0) two_day_db) =
     Inr (timeline_of (getTimelineData (fixed_random 0) two_day_db)) \<and>
   map date (timeline_of (getTimelineData (fixed_random 0) two_day_db)) = [1, 0] \<and>
   map dailyProfit (timeline_of (getTimelineData (fixed_random 0) two_day_db)) = [- 5, 10] \<and>
   netWorth (hd (timeline_of (getTimelineData (fixed_random 0) two_day_db))) =
     startingNetWorth + 5"
proof -
  let ?days = "[profit_day 0 10, profit_day 1 (- 5)]"
  let ?points = "timeline_of (getTimelineData (fixed_random 0) two_day_db)"
  have h1: "(1::nat) < length ?days" and h2: "?days \<noteq> []"
    and h3: "dailyProfit (profit_day 0 10) = 10 \<and> dailyProfit (profit_day 1 (- 5)) = - 5"
    by (simp_all add: profit_day_def)
  have h4: "fst (getTimelineData (fixed_random 0) two_day_db) = Inr ?points"
    and h5: "hd ?points \<in> set ?points"
    and h6: "\<forall>q. q \<in> set ?points \<longrightarrow> date q \<le> date (hd ?points)"
    and h7: "map date ?points = [1, 0]" "map dailyProfit ?points = [- 5, 10]"
    by (auto simp: two_day_timeline timeline_of_def)
  have h8: "sum_list (map dailyProfit ?days) = 5" "sum_list (map dailyProfit (take (Suc 1) ?days)) = 5"
    by (simp_all add: profit_day_def)
  show ?thesis
    using timeline_net_worth_accumulates [of 1 ?days "fixed_random 0" 0 100 100 "profit_day 0 10"
        "profit_day 1 (- 5)" two_day_db ?points "hd ?points"]
      h1 h2 h3 h4 h5 h6 h7 h8
    by simp
qed

subsection \<open>Return on investment and growth\<close>

text \<open>
  C4 (as amended). For the \<open>k\<close>-th day of the loop started with both net-worth
  variables at \<open>s\<close>: the ROI is the daily profit times 100 over the finished trades
  times 100000, and 0 when that product is 0; the previous day's net worth is \<open>s\<close> for
  the first day and the net worth of the day before otherwise, which is the day's own
  net worth less its profit; the growth is the daily profit times 100 over the previous
  day's net worth when that is positive, and 0 when it is zero or negative. From 100
  with the profits 10 and -5 the growth of the second day is (-5 * 100) / 110. The same
  ROI and growth hold for every day of the list \<^verbatim>\<open>getTimelineData\<close> returns.
\<close>

theorem timeline_roi_growth:
  "(k < length days \<longrightarrow>
      roi (timeline_loop rnd j s s days ! k) =
        (if int (finishedTrades (days ! k)) * 100000 = 0 then 0
         else of_int (dailyProfit (days ! k) * 100) /
              of_int (int (finishedTrades (days ! k)) * 100000)) \<and>
      (if k = 0 then s else netWorth (timeline_loop rnd j s s days ! (k - 1))) =
        netWorth (timeline_loop rnd j s s days ! k) - dailyProfit (days ! k) \<and>
      growth (timeline_loop rnd j s s days ! k) =
        (if (if k = 0 then s else netWorth (timeline_loop rnd j s s days ! (k - 1))) > 0
         then of_int (dailyProfit (days ! k) * 100) /
              of_int (if k = 0 then s else netWorth (timeline_loop rnd j s s days ! (k - 1)))
         else 0)) \<and>
   (dailyProfit d1 = 10 \<and> dailyProfit d2 = - 5 \<longrightarrow>
      growth (timeline_loop rnd j 100 100 [d1, d2] ! 1) = of_int (- 5 * 100) / of_int 110) \<and>
   (fst (getTimelineData rnd d) = Inr points \<and> x \<in> set points \<longrightarrow>
      roi x =
        (if int (finishedTrades x) * 100000 = 0 then 0
         else of_int (dailyProfit x * 100) / of_int (int (finishedTrades x) * 100000)) \<and>
      growth x =
        (if netWorth x - dailyProfit x > 0
         then of_int (dailyProfit x * 100) / of_int (netWorth x - dailyProfit x)
         else 0))"
proof (intro conjI impI)
  assume k: "k < length days"
  show "roi (timeline_loop rnd j s s days ! k) =
        (if int (finishedTrades (days ! k)) * 100000 = 0 then 0
         else of_int (dailyProfit (days ! k) * 100) /
              of_int (int (finishedTrades (days ! k)) * 100000))"
    using timeline_loop_roi_nth [OF k, of rnd j s s] by simp
  show "growth (timeline_loop rnd j s s days ! k) =
        (if (if k = 0 then s else netWorth (timeline_loop rnd j s s days ! (k - 1))) > 0
         then of_int (dailyProfit (days ! k) * 100) /
              of_int (if k = 0 then s else netWorth (timeline_loop rnd j s s days ! (k - 1)))
         else 0)"
    by (rule timeline_loop_growth_nth [OF k])
  show "(if k = 0 then s else netWorth (timeline_loop rnd j s s days ! (k - 1))) =
        netWorth (timeline_loop rnd j s s days ! k) - dailyProfit (days ! k)"
  proof (cases k)
    case 0
    then show ?thesis
      using timeline_loop_netWorth_nth [OF k, of rnd j s s] k
      by (cases days) simp_all
  next
    case (Suc k')
    then have k': "k' < length days"
      using k by simp
    have "take (Suc k) days = take k days @ [days ! k]"
      using k by (simp add: take_Suc_conv_app_nth)
    then show ?thesis
      using timeline_loop_netWorth_nth [OF k, of rnd j s s]
        timeline_loop_netWorth_nth [OF k', of rnd j s s] Suc
      by simp
  qed
next
  assume "dailyProfit d1 = 10 \<and> dailyProfit d2 = - 5"
  then show "growth (timeline_loop rnd j 100 100 [d1, d2] ! 1) = of_int (- 5 * 100) / of_int 110"
    by (simp add: Let_def)
next
  assume a: "fst (getTimelineData rnd d) = Inr points \<and> x \<in> set points"
  then obtain days where x: "x \<in> set (timeline_loop rnd 0 startingNetWorth startingNetWorth days)"
    using getTimelineData_member [of rnd d points x] by blast
  show "roi x =
        (if int (finishedTrades x) * 100000 = 0 then 0
         else of_int (dailyProfit x * 100) / of_int (int (finishedTrades x) * 100000))"
    using timeline_loop_roi [OF x] by simp
  show "growth x =
        (if netWorth x - dailyProfit x > 0
         then of_int (dailyProfit x * 100) / of_int (netWorth x - dailyProfit x)
         else 0)"
    by (rule timeline_loop_growth [OF x])
qed

theorem timeline_roi_growth_witness:
  "(1::nat) < length [profit_day 0 10, profit_day 1 (- 5)] \<and>
   dailyProfit (profit_day 0 10) = 10 \<and> dailyProfit (profit_day 1 (- 5)) = - 5 \<and>
   roi (timeline_loop (fixed_random 0) 0 100 100 [profit_day 0 10, profit_day 1 (- 5)] ! 1) =
     - (1 / 200) \<and>
   netWorth (timeline_loop (fixed_random 0) 0 100 100 [profit_day 0 10, profit_day 1 (- 5)] ! 0) =
     110 \<and>
   growth (timeline_loop (fixed_random 0) 0 100 100 [profit_day 0 10, profit_day 1 (- 5)] ! 1) =
     - (500 / 110) \<and>
   fst (getTimelineData (fixed_random 0) loss_db) =
     Inr (timeline_of (getTimelineData (fixed_random 0) loss_db)) \<and>
   hd (timeline_of (getTimelineData (fixed_random 0) loss_db)) \<in>
     set (timeline_of (getTimelineData (fixed_random 0) loss_db)) \<and>
   netWorth (hd (timeline_of (getTimelineData (fixed_random 0) loss_db))) -
     dailyProfit (hd (timeline_of (getTimelineData (fixed_random 0) loss_db))) = - 100 \<and>
   roi (hd (timeline_of (getTimelineData (fixed_random 0) loss_db))) = 1 / 100 \<and>
   growth (hd (timeline_of (getTimelineData (fixed_random 0) loss_db))) = 0"
proof -
  let ?days = "[profit_day 0 10, profit_day 1 (- 5)]"
  let ?points = "timeline_of (getTimelineData (fixed_random 0) loss_db)"
  have h1: "(1::nat) < length ?days"
    and h2: "dailyProfit (profit_day 0 10) = 10 \<and> dailyProfit (profit_day 1 (- 5)) = - 5"
    and h3: "finishedTrades (?days ! 1) = 1" "dailyProfit (?days ! 1) = - 5"
    by (simp_all add: profit_day_def)
  have h4: "fst (getTimelineData (fixed_random 0) loss_db) = Inr ?points"
    and h5: "hd ?points \<in> set ?points"
    and h6: "netWorth (hd ?points) = - 90" "dailyProfit (hd ?points) = 10"
      "finishedTrades (hd ?points) = 1"
    by (simp_all add: loss_timeline timeline_of_def)
  have h7: "netWorth (timeline_loop (fixed_random 0) 0 100 100 ?days ! 0) = 110"
    by (simp add: profit_day_def Let_def)
  show ?thesis
    using timeline_roi_growth [of 1 ?days "fixed_random 0" 0 100 "profit_day 0 10"
        "profit_day 1 (- 5)" loss_db ?points "hd ?points"]
      h1 h2 h3 h4 h5 h6 h7
    by simp
qed

text \<open>
  C4 as stated fails when the previous day's net worth is negative. After a first day
  with a loss of 198000100 the net worth is -100; the second day's profit of 10 then
  has the growth 0, not (10 * 100) / (-100).
\<close>

theorem growth_negative_net_worth_counterexample:
  "map date (timeline_of (getTimelineData (fixed_random 0) loss_db)) = [1, 0] \<and>
   map dailyProfit (timeline_of (getTimelineData (fixed_random 0) loss_db)) =
     [10, - 198000100] \<and>
   map netWorth (timeline_of (getTimelineData (fixed_random 0) loss_db)) = [- 90, - 100] \<and>
   growth (hd (timeline_of (getTimelineData (fixed_random 0) loss_db))) = 0 \<and>
   (of_int (10 * 100) / of_int (- 100) :: rat) = - 10 \<and>
   growth (hd (timeline_of (getTimelineData (fixed_random 0) loss_db))) \<noteq>
     of_int (10 * 100) / of_int (- 100)"
  by (simp add: loss_timeline timeline_of_def)

subsection \<open>The item count\<close>

text \<open>
  C5 at a store with one day of two records of two distinct items: the item count of
  the day is 1 when \<^verbatim>\<open>Math.random()\<close> returns 0 and 6 when it returns 1/2, so two runs
  over the same store differ, and neither count is the number of distinct items.
\<close>

theorem timeline_items_random:
  "length (remdups (map item (trading_records mixed_db))) = 2 \<and>
   map date (timeline_of (getTimelineData (fixed_random 0) mixed_db)) = [0] \<and>
   map items (timeline_of (getTimelineData (fixed_random 0) mixed_db)) = [1] \<and>
   map items (timeline_of (getTimelineData (fixed_random (1 / 2)) mixed_db)) = [6] \<and>
   getTimelineData (fixed_random 0) mixed_db \<noteq> getTimelineData (fixed_random (1 / 2)) mixed_db"
proof -
  have a: "map items (timeline_of (getTimelineData (fixed_random 0) mixed_db)) = [1]"
    and b: "map items (timeline_of (getTimelineData (fixed_random (1 / 2)) mixed_db)) = [6]"
    and c: "map date (timeline_of (getTimelineData (fixed_random 0) mixed_db)) = [0]"
    and d: "length (remdups (map item (trading_records mixed_db))) = 2"
    by (simp_all add: mixed_db_eq timeline_defs)
  have "getTimelineData (fixed_random 0) mixed_db \<noteq> getTimelineData (fixed_random (1 / 2)) mixed_db"
    using a b by auto
  then show ?thesis
    using a b c d by simp
qed

subsection \<open>The constants of the timeline\<close>

text \<open>
  C6 (as amended). \<^verbatim>\<open>getTimelineData\<close> takes no starting net worth and no unit estimate:
  both are constants of its body. In every list it returns, a day's net worth is
  198000000 plus the daily profits of the days up to and including it, and its ROI is
  its daily profit times 100 over 100000 per finished trade (0 without finished trades).
\<close>

theorem timeline_constants_embedded:
  assumes "fst (getTimelineData rnd d) = Inr points" and "x \<in> set points"
  shows "netWorth x =
           198000000 + sum_list (map dailyProfit (filter (\<lambda>q. date q \<le> date x) points)) \<and>
         roi x =
           (if finishedTrades x = 0 then 0
            else of_int (dailyProfit x * 100) / of_int (int (finishedTrades x) * 100000))"
proof -
  obtain days where x: "x \<in> set (timeline_loop rnd 0 startingNetWorth startingNetWorth days)"
    using getTimelineData_member [OF assms] by blast
  have "roi x =
      (if finishedTrades x = 0 then 0
       else of_int (dailyProfit x * 100) / of_int (int (finishedTrades x) * 100000))"
    using timeline_loop_roi [OF x] by simp
  then show ?thesis
    using getTimelineData_netWorth [OF assms] by (simp add: startingNetWorth_def)
qed

theorem timeline_constants_embedded_witness:
  "fst (getTimelineData (fixed_random 0) two_day_db) =
     Inr (timeline_of (getTimelineData (fixed_random 0) two_day_db)) \<and>
   hd (timeline_of (getTimelineData (fixed_random 0) two_day_db)) \<in>
     set (timeline_of (getTimelineData (fixed_random 0) two_day_db)) \<and>
   map dailyProfit (timeline_of (getTimelineData (fixed_random 0) two_day_db)) = [- 5, 10] \<and>
   map finishedTrades (timeline_of (getTimelineData (fixed_random 0) two_day_db)) = [1, 1] \<and>
   netWorth (hd (timeline_of (getTimelineData (fixed_random 0) two_day_db))) = 198000000 + 5 \<and>
   roi (hd (timeline_of (getTimelineData (fixed_random 0) two_day_db))) = - 500 / 100000"
proof -
  let ?points = "timeline_of (getTimelineData (fixed_random 0) two_day_db)"
  have h1: "fst (getTimelineData (fixed_random 0) two_day_db) = Inr ?points"
    and h2: "hd ?points \<in> set ?points"
    and h3: "map dailyProfit ?points = [- 5, 10]" "map finishedTrades ?points = [1, 1]"
    and h4: "sum_list (map dailyProfit (filter (\<lambda>q. date q \<le> date (hd ?points)) ?points)) = 5"
    and h5: "dailyProfit (hd ?points) = - 5" "finishedTrades (hd ?points) = 1"
    by (simp_all add: two_day_timeline timeline_of_def)
  show ?thesis
    using timeline_constants_embedded [OF h1 h2] h1 h2 h3 h4 h5
    by simp
qed

text \<open>
  C6 as stated fails: no configured value enters the computation. On the store with
  the daily profits 10 and -5, a starting net worth of 100 would give the net worths
  110 and 105; the timeline has 198000010 and 198000005 (listed latest day first).
\<close>

theorem timeline_not_configurable_counterexample:
  "map dailyProfit (timeline_of (getTimelineData (fixed_random 0) two_day_db)) = [- 5, 10] \<and>
   map netWorth (timeline_of (getTimelineData (fixed_random 0) two_day_db)) =
     [198000005, 198000010] \<and>
   map netWorth (timeline_of (getTimelineData (fixed_random 0) two_day_db)) \<noteq>
     [100 + 10 + (- 5), 100 + 10] \<and>
   map roi (timeline_of (getTimelineData (fixed_random 0) two_day_db)) =
     [(- 5 * 100) / (1 * 100000), (10 * 100) / (1 * 100000)]"
  by (simp add: two_day_timeline timeline_of_def)

subsection \<open>The import loop\<close>



















lemmas loop_defs = row_exists_def row_insert_def failing_db_def rune_row_def process_row_def
  row_record_def either_column_def recordExists_def driver_call_def key_count_def
  key_matches_def insertRecord_def insert_or_ignore_def or_zero_def parseInt_value_def
  parseInt_def is_white_space_def is_digit_def digit_of_def Let_def csv_row_def empty_db_def
  no_counts_def




subsection \<open>Normalisation of a row\<close>

lemma no_number_or_zero:
  "no_number row a b \<Longrightarrow> or_zero (parseInt_value (either_column row a b)) = 0"
  by (simp add: no_number_def or_zero_def parseInt_value_def split: option.splits)

lemma parseInt_abc: "parseInt ''abc'' = None"
  by (simp add: parseInt_def is_white_space_def is_digit_def digit_of_def Let_def)

lemma process_row_no_failures:
  assumes "failures d = []"
  shows "errors (fst (process_row row (c, d))) = errors c"
proof -
  let ?r = "row_record row"
  have ex: "recordExists d (firstBuyTime ?r) (lastSellTime ?r) (itemOf ?r) =
      (Inr (key_count (trading_records d) (firstBuyTime ?r) (lastSellTime ?r) (itemOf ?r) > 0), d)"
    using assms by (simp add: recordExists_def driver_call_no_failures)
  obtain res d2 where ioi: "insert_or_ignore d ?r = (res, d2)"
    by (cases "insert_or_ignore d ?r")
  have ins: "insertRecord d ?r = (Inr res, d2)"
    using assms ioi by (simp add: insertRecord_def driver_call_no_failures)
  show ?thesis
    using ex ins by (simp add: process_row_def Let_def)
qed

lemma process_row_fresh:
  assumes "failures d = []" and "fst (row_exists d row) = Inr False"
    and "accountOf (row_record row) \<noteq> None" and "itemOf (row_record row) \<noteq> None"
    and "statusOf (row_record row) \<noteq> None"
  shows "fst (process_row row (c, d)) = c\<lparr>newRecords := newRecords c + 1\<rparr> \<and>
         map profit (trading_records (snd (process_row row (c, d)))) =
           map profit (trading_records d) @ [profitOf (row_record row)]"
proof -
  let ?r = "row_record row"
  have ex: "recordExists d (firstBuyTime ?r) (lastSellTime ?r) (itemOf ?r) = (Inr False, d)"
    and kc: "key_count (trading_records d) (firstBuyTime ?r) (lastSellTime ?r) (itemOf ?r) = 0"
    using assms(1,2) by (simp_all add: row_exists_def recordExists_def driver_call_no_failures)
  obtain a i s where f: "accountOf ?r = Some a" "itemOf ?r = Some i" "statusOf ?r = Some s"
    using assms(3,4,5) by auto
  obtain res d2 where ins: "insertRecord d ?r = (Inr res, d2)"
    and res: "changes res = 1"
    and rows: "map profit (trading_records d2) = map profit (trading_records d) @ [profitOf ?r]"
    using kc f assms(1)
    by (simp add: insertRecord_def insert_or_ignore_def driver_call_no_failures Let_def)
  show ?thesis
    using ex ins res rows by (simp add: process_row_def Let_def)
qed

text \<open>
  C9. Building the record from a row is a total function. Each of the seven numeric
  fields is 0 when its cell is without a number, which is the case when both columns
  are missing and when the text has no leading digits, as for \<^verbatim>\<open>abc\<close>. The row goes on
  to the store calls: with no failing driver call it adds nothing to \<^verbatim>\<open>errors\<close>, and a
  row with the profit \<^verbatim>\<open>abc\<close>, a fresh key and its account, item and status is stored
  with the profit 0 and counted as new.
\<close>

theorem row_record_numeric_defaults:
  "(row a = None \<and> row b = None \<longrightarrow> no_number row a b) \<and>
   (either_column row a b = Some t \<and> parseInt t = None \<longrightarrow> no_number row a b) \<and>
   (no_number row ''Bought'' ''bought'' \<longrightarrow> boughtOf (row_record row) = 0) \<and>
   (no_number row ''Sold'' ''sold'' \<longrightarrow> soldOf (row_record row) = 0) \<and>
   (no_number row ''Avg. buy price'' ''avg_buy_price'' \<longrightarrow> avgBuyPrice (row_record row) = 0) \<and>
   (no_number row ''Avg. sell price'' ''avg_sell_price'' \<longrightarrow> avgSellPrice (row_record row) = 0) \<and>
   (no_number row ''Tax'' ''tax'' \<longrightarrow> taxOf (row_record row) = 0) \<and>
   (no_number row ''Profit'' ''profit'' \<longrightarrow> profitOf (row_record row) = 0) \<and>
   (no_number row ''Profit ea.'' ''profit_ea'' \<longrightarrow> profitEa (row_record row) = 0) \<and>
   (row ''Profit'' = Some ''abc'' \<longrightarrow>
      no_number row ''Profit'' ''profit'' \<and> profitOf (row_record row) = 0) \<and>
   (failures d = [] \<longrightarrow> errors (fst (process_row row (c, d))) = errors c) \<and>
   (failures d = [] \<and> row ''Profit'' = Some ''abc'' \<and> fst (row_exists d row) = Inr False \<and>
    accountOf (row_record row) \<noteq> None \<and> itemOf (row_record row) \<noteq> None \<and>
    statusOf (row_record row) \<noteq> None \<longrightarrow>
      fst (process_row row (c, d)) = c\<lparr>newRecords := newRecords c + 1\<rparr> \<and>
      map profit (trading_records (snd (process_row row (c, d)))) =
        map profit (trading_records d) @ [0])"
proof -
  have abc: "row ''Profit'' = Some ''abc'' \<Longrightarrow> no_number row ''Profit'' ''profit''"
    by (simp add: no_number_def either_column_def parseInt_abc)
  have zero: "\<And>a b. no_number row a b \<longrightarrow> or_zero (parseInt_value (either_column row a b)) = 0"
    by (simp add: no_number_or_zero)
  have c1: "row a = None \<and> row b = None \<longrightarrow> no_number row a b"
    by (simp add: no_number_def either_column_def)
  have c2: "either_column row a b = Some t \<and> parseInt t = None \<longrightarrow> no_number row a b"
    by (auto simp: no_number_def)
  have c3: "no_number row ''Bought'' ''bought'' \<longrightarrow> boughtOf (row_record row) = 0"
    using zero [of "''Bought''" "''bought''"] by (simp add: row_record_def)
  have c4: "no_number row ''Sold'' ''sold'' \<longrightarrow> soldOf (row_record row) = 0"
    using zero [of "''Sold''" "''sold''"] by (simp add: row_record_def)
  have c5: "no_number row ''Avg. buy price'' ''avg_buy_price'' \<longrightarrow>
      avgBuyPrice (row_record row) = 0"
    using zero [of "''Avg. buy price''" "''avg_buy_price''"] by (simp add: row_record_def)
  have c6: "no_number row ''Avg. sell price'' ''avg_sell_price'' \<longrightarrow>
      avgSellPrice (row_record row) = 0"
    using zero [of "''Avg. sell price''" "''avg_sell_price''"] by (simp add: row_record_def)
  have c7: "no_number row ''Tax'' ''tax'' \<longrightarrow> taxOf (row_record row) = 0"
    using zero [of "''Tax''" "''tax''"] by (simp add: row_record_def)
  have c8: "no_number row ''Profit'' ''profit'' \<longrightarrow> profitOf (row_record row) = 0"
    using zero [of "''Profit''" "''profit''"] by (simp add: row_record_def)
  have c9: "no_number row ''Profit ea.'' ''profit_ea'' \<longrightarrow> profitEa (row_record row) = 0"
    using zero [of "''Profit ea.''" "''profit_ea''"] by (simp add: row_record_def)
  have c10: "row ''Profit'' = Some ''abc'' \<longrightarrow>
      no_number row ''Profit'' ''profit'' \<and> profitOf (row_record row) = 0"
    using abc c8 by blast
  have c11: "failures d = [] \<longrightarrow> errors (fst (process_row row (c, d))) = errors c"
    by (simp add: process_row_no_failures)
  have c12: "failures d = [] \<and> row ''Profit'' = Some ''abc'' \<and>
      fst (row_exists d row) = Inr False \<and>
      accountOf (row_record row) \<noteq> None \<and> itemOf (row_record row) \<noteq> None \<and>
      statusOf (row_record row) \<noteq> None \<longrightarrow>
        fst (process_row row (c, d)) = c\<lparr>newRecords := newRecords c + 1\<rparr> \<and>
        map profit (trading_records (snd (process_row row (c, d)))) =
          map profit (trading_records d) @ [0]"
    using process_row_fresh [of d row c] c10 by auto
  show ?thesis
    by (intro conjI) (rule c1 c2 c3 c4 c5 c6 c7 c8 c9 c10 c11 c12)+
qed

theorem row_record_numeric_defaults_witness:
  "abc_row ''Bought'' = None \<and> abc_row ''bought'' = None \<and>
   no_number abc_row ''Bought'' ''bought'' \<and> boughtOf (row_record abc_row) = 0 \<and>
   either_column abc_row ''Profit'' ''profit'' = Some ''abc'' \<and> parseInt ''abc'' = None \<and>
   abc_row ''Profit'' = Some ''abc'' \<and>
   no_number abc_row ''Profit'' ''profit'' \<and> profitOf (row_record abc_row) = 0 \<and>
   no_number abc_row ''Sold'' ''sold'' \<and> soldOf (row_record abc_row) = 0 \<and>
   no_number abc_row ''Avg. buy price'' ''avg_buy_price'' \<and>
   avgBuyPrice (row_record abc_row) = 0 \<and>
   no_number abc_row ''Avg. sell price'' ''avg_sell_price'' \<and>
   avgSellPrice (row_record abc_row) = 0 \<and>
   no_number abc_row ''Tax'' ''tax'' \<and> taxOf (row_record abc_row) = 0 \<and>
   no_number abc_row ''Profit ea.'' ''profit_ea'' \<and> profitEa (row_record abc_row) = 0 \<and>
   failures empty_db = [] \<and> fst (row_exists empty_db abc_row) = Inr False \<and>
   accountOf (row_record abc_row) \<noteq> None \<and> itemOf (row_record abc_row) \<noteq> None \<and>
   statusOf (row_record abc_row) \<noteq> None \<and>
   errors (fst (process_row abc_row (no_counts, empty_db))) = 0 \<and>
   fst (process_row abc_row (no_counts, empty_db)) = no_counts\<lparr>newRecords := 1\<rparr> \<and>
   map profit (trading_records (snd (process_row abc_row (no_counts, empty_db)))) = [0]"
proof -
  have h1: "abc_row ''Bought'' = None \<and> abc_row ''bought'' = None"
    and h2: "either_column abc_row ''Profit'' ''profit'' = Some ''abc'' \<and> parseInt ''abc'' = None"
    and h3: "abc_row ''Profit'' = Some ''abc''"
    by (simp_all add: abc_row_def csv_row_def either_column_def parseInt_abc)
  have m: "abc_row ''Sold'' = None \<and> abc_row ''sold'' = None"
    "abc_row ''Avg. buy price'' = None \<and> abc_row ''avg_buy_price'' = None"
    "abc_row ''Avg. sell price'' = None \<and> abc_row ''avg_sell_price'' = None"
    "abc_row ''Tax'' = None \<and> abc_row ''tax'' = None"
    "abc_row ''Profit ea.'' = None \<and> abc_row ''profit_ea'' = None"
    by (simp_all add: abc_row_def csv_row_def)
  have h4: "failures empty_db = []" and h5: "fst (row_exists empty_db abc_row) = Inr False"
    and h6: "accountOf (row_record abc_row) \<noteq> None" "itemOf (row_record abc_row) \<noteq> None"
      "statusOf (row_record abc_row) \<noteq> None"
    and h7: "errors no_counts = 0" "trading_records empty_db = []"
    by (simp_all add: abc_row_def loop_defs)
  note t = row_record_numeric_defaults [of abc_row _ _ "''abc''" empty_db no_counts]
  note t1 = t [of "''Bought''" "''bought''"]
  note r1 = t1 [THEN conjunct2]
  note r2 = r1 [THEN conjunct2]
  note r3 = r2 [THEN conjunct2]
  note r4 = r3 [THEN conjunct2]
  note r5 = r4 [THEN conjunct2]
  note r6 = r5 [THEN conjunct2]
  note r7 = r6 [THEN conjunct2]
  note r8 = r7 [THEN conjunct2]
  note r9 = r8 [THEN conjunct2]
  note r10 = r9 [THEN conjunct2]
  note r11 = r10 [THEN conjunct2]
  have n1: "no_number abc_row ''Bought'' ''bought''"
    by (rule t1 [THEN conjunct1, THEN mp, OF h1])
  have n2: "no_number abc_row ''Profit'' ''profit''"
    by (rule t [of "''Profit''" "''profit''", THEN conjunct2, THEN conjunct1, THEN mp, OF h2])
  have n3: "no_number abc_row ''Sold'' ''sold''"
    "no_number abc_row ''Avg. buy price'' ''avg_buy_price''"
    "no_number abc_row ''Avg. sell price'' ''avg_sell_price''"
    "no_number abc_row ''Tax'' ''tax''"
    "no_number abc_row ''Profit ea.'' ''profit_ea''"
    by (rule t [THEN conjunct1, THEN mp, OF m(1)] t [THEN conjunct1, THEN mp, OF m(2)]
        t [THEN conjunct1, THEN mp, OF m(3)] t [THEN conjunct1, THEN mp, OF m(4)]
        t [THEN conjunct1, THEN mp, OF m(5)])+
  have z: "boughtOf (row_record abc_row) = 0" "soldOf (row_record abc_row) = 0"
    "avgBuyPrice (row_record abc_row) = 0" "avgSellPrice (row_record abc_row) = 0"
    "taxOf (row_record abc_row) = 0" "profitOf (row_record abc_row) = 0"
    "profitEa (row_record abc_row) = 0"
    by (rule r2 [THEN conjunct1, THEN mp, OF n1] r3 [THEN conjunct1, THEN mp, OF n3(1)]
        r4 [THEN conjunct1, THEN mp, OF n3(2)] r5 [THEN conjunct1, THEN mp, OF n3(3)]
        r6 [THEN conjunct1, THEN mp, OF n3(4)] r7 [THEN conjunct1, THEN mp, OF n2]
        r8 [THEN conjunct1, THEN mp, OF n3(5)])+
  have p1: "errors (fst (process_row abc_row (no_counts, empty_db))) = errors no_counts"
    by (rule r10 [THEN conjunct1, THEN mp, OF h4])
  have h8: "failures empty_db = [] \<and> abc_row ''Profit'' = Some ''abc'' \<and>
      fst (row_exists empty_db abc_row) = Inr False \<and>
      accountOf (row_record abc_row) \<noteq> None \<and> itemOf (row_record abc_row) \<noteq> None \<and>
      statusOf (row_record abc_row) \<noteq> None"
    using h3 h4 h5 h6 by (intro conjI)
  have p2: "fst (process_row abc_row (no_counts, empty_db)) =
       no_counts\<lparr>newRecords := newRecords no_counts + 1\<rparr> \<and>
     map profit (trading_records (snd (process_row abc_row (no_counts, empty_db)))) =
       map profit (trading_records empty_db) @ [0]"
    by (rule r11 [THEN mp, OF h8])
  have v: "newRecords no_counts = 0"
    by (simp add: no_counts_def)
  show ?thesis
    using h1 h2 h3 h4 h5 h6 n1 n2 n3 z p1 p2 by (simp add: h7 v)
qed

end
